theory Spec2Isabelle
  imports Complex_Main
begin

section \<open>Conventions of the embedding\<close>

text \<open>
  The program is JavaScript. A JavaScript number that the code uses as a measured
  quantity (milliseconds, kilometres, Mbps, a running average) is the
  \<^typ>\<open>real\<close> that the double denotes. Where the result of a computation
  depends on the rounding of doubles (the distance function and the latency derived
  from it), every operation passes through the rounding function of the platform,
  which is an argument of the model; elsewhere the arithmetic of the model is exact.
  A number that the code uses as a byte count or as an index is an
  \<^typ>\<open>int\<close>. \<open>Infinity\<close> and \<open>NaN\<close>, where the code can produce them, are
  the value \<open>None\<close> of an option type. A \<open>Map\<close> is a partial function. Values
  that the environment supplies (the clock, the random generator, the socket's
  answers to \<open>write\<close>, the order in which events arrive) are arguments of the
  functions that consume them.
\<close>

section \<open>Client: signal quality (script.js, \<open>SpeedTest.estimateSignalQuality\<close>)\<close>

record measurements =
  ping :: real
  jitter :: real
  download :: real
  upload :: real
  packetLoss :: real

text \<open>
  The record above is the object \<open>this.testResults\<close> of the client, which is also
  the field \<open>results\<close> of the payload it posts to the API server.

  The source keeps \<open>score\<close> in a local variable which three \<open>if / else if\<close>
  statements decrease in turn; each statement is one function from the old score to
  the new one.
\<close>

definition score_after_ping :: "real \<Rightarrow> int \<Rightarrow> int" where
  "score_after_ping p score =
     (if p > 100 then score - 30 else if p > 50 then score - 15 else score)"

definition score_after_jitter :: "real \<Rightarrow> int \<Rightarrow> int" where
  "score_after_jitter j score =
     (if j > 10 then score - 20 else if j > 5 then score - 10 else score)"

definition score_after_loss :: "real \<Rightarrow> int \<Rightarrow> int" where
  "score_after_loss l score =
     (if l > 0.1 then score - 20 else if l > 0.05 then score - 10 else score)"

definition quality_score :: "measurements \<Rightarrow> int" where
  "quality_score r =
     score_after_loss (packetLoss r)
       (score_after_jitter (jitter r) (score_after_ping (ping r) 100))"

definition score_label :: "int \<Rightarrow> string" where
  "score_label score =
     (if score \<ge> 90 then ''Excellent''
      else if score \<ge> 80 then ''Good''
      else if score \<ge> 70 then ''Fair''
      else if score \<ge> 60 then ''Poor''
      else ''Bad'')"

definition estimateSignalQuality :: "measurements \<Rightarrow> string" where
  "estimateSignalQuality r = score_label (quality_score r)"

text \<open>The rule as the specification words it: three independent penalties.\<close>

definition ping_penalty :: "real \<Rightarrow> int" where
  "ping_penalty p = (if p > 100 then 30 else if p > 50 then 15 else 0)"

definition jitter_penalty :: "real \<Rightarrow> int" where
  "jitter_penalty j = (if j > 10 then 20 else if j > 5 then 10 else 0)"

definition loss_penalty :: "real \<Rightarrow> int" where
  "loss_penalty l = (if l > 0.1 then 20 else if l > 0.05 then 10 else 0)"

definition spec_quality_score :: "real \<Rightarrow> real \<Rightarrow> real \<Rightarrow> int" where
  "spec_quality_score p j l = 100 - ping_penalty p - jitter_penalty j - loss_penalty l"

definition sample_good :: measurements where
  "sample_good = \<lparr>ping = 20, jitter = 2, download = 0, upload = 0, packetLoss = 0.01\<rparr>"

definition sample_bad :: measurements where
  "sample_bad = \<lparr>ping = 150, jitter = 15, download = 0, upload = 0, packetLoss = 0.2\<rparr>"

section \<open>API server: directory and distance (server.js)\<close>

text \<open>
  The arithmetic of the program is that of IEEE doubles: every operation returns the
  double nearest to the exact result, and \<open>Math.sin\<close>, \<open>Math.cos\<close> and
  \<open>Math.atan2\<close> return approximations that the platform chooses. The platform's
  part is an argument of the functions below: \<open>fl\<close> rounds an exact result to a
  double, and \<open>fl_sin\<close>, \<open>fl_cos\<close>, \<open>fl_atan2\<close> are the three library
  functions. A finite double is the real number it denotes; \<open>NaN\<close> is \<open>None\<close>.
  The quantities of this section stay far from overflow, which is not modelled.
\<close>

record arith =
  fl :: "real \<Rightarrow> real"
  fl_sin :: "real \<Rightarrow> real"
  fl_cos :: "real \<Rightarrow> real"
  fl_atan2 :: "real \<Rightarrow> real \<Rightarrow> real"

definition fadd :: "arith \<Rightarrow> real \<Rightarrow> real \<Rightarrow> real" where
  "fadd F x y = fl F (x + y)"

definition fsub :: "arith \<Rightarrow> real \<Rightarrow> real \<Rightarrow> real" where
  "fsub F x y = fl F (x - y)"

definition fmul :: "arith \<Rightarrow> real \<Rightarrow> real \<Rightarrow> real" where
  "fmul F x y = fl F (x * y)"

definition fdiv :: "arith \<Rightarrow> real \<Rightarrow> real \<Rightarrow> real" where
  "fdiv F x y = fl F (x / y)"

definition math_PI :: "arith \<Rightarrow> real" where
  "math_PI F = fl F pi"

text \<open>\<open>Math.sqrt\<close> is correctly rounded; of a negative number it is \<open>NaN\<close>.\<close>

definition math_sqrt :: "arith \<Rightarrow> real \<Rightarrow> real option" where
  "math_sqrt F x = (if x < 0 then None else Some (fl F (sqrt x)))"

text \<open>
  \<open>Math.atan2 y x\<close> in exact arithmetic: the angle of the point \<open>(x, y)\<close>, in
  \<open>(-\<pi>, \<pi>]\<close>.
\<close>

definition atan2 :: "real \<Rightarrow> real \<Rightarrow> real" where
  "atan2 y x =
     (if x > 0 then arctan (y / x)
      else if x < 0 then (if y \<ge> 0 then arctan (y / x) + pi else arctan (y / x) - pi)
      else if y > 0 then pi / 2
      else if y < 0 then - pi / 2
      else 0)"

text \<open>The arithmetic without rounding, for comparison with the formulas of the specification.\<close>

definition exact_arith :: arith where
  "exact_arith = \<lparr>fl = (\<lambda>x. x), fl_sin = sin, fl_cos = cos, fl_atan2 = atan2\<rparr>"

record coordinates =
  lat :: real
  lon :: real

record testServer =
  server_id :: nat
  name :: string
  location :: string
  country :: string
  city :: string
  coordinates :: coordinates
  host :: string
  port :: nat
  capacity :: nat
  activeConnections :: nat
  status :: string

text \<open>
  The registry \<open>testServers\<close>. A decimal literal of the source is the double
  nearest to it. The port of the first entry is \<open>TEST_SERVER_PORT\<close>, read from the
  process environment: an argument here.
\<close>

definition testServers :: "arith \<Rightarrow> nat \<Rightarrow> testServer list" where
  "testServers F test_server_port =
     [\<lparr>server_id = 1, name = ''Primary Server'', location = ''New York, USA'',
       country = ''US'', city = ''New York'',
       coordinates = \<lparr>lat = fl F 40.7128, lon = - fl F 74.0060\<rparr>,
       host = ''localhost'', port = test_server_port, capacity = 1000,
       activeConnections = 0, status = ''online''\<rparr>,
      \<lparr>server_id = 2, name = ''Europe Server'', location = ''London, UK'',
       country = ''GB'', city = ''London'',
       coordinates = \<lparr>lat = fl F 51.5074, lon = - fl F 0.1278\<rparr>,
       host = ''london.speedtest.example.com'', port = 3001, capacity = 800,
       activeConnections = 0, status = ''online''\<rparr>,
      \<lparr>server_id = 3, name = ''Asia Server'', location = ''Singapore'',
       country = ''SG'', city = ''Singapore'',
       coordinates = \<lparr>lat = fl F 1.3521, lon = fl F 103.8198\<rparr>,
       host = ''singapore.speedtest.example.com'', port = 3001, capacity = 600,
       activeConnections = 0, status = ''online''\<rparr>,
      \<lparr>server_id = 4, name = ''Australia Server'', location = ''Sydney, Australia'',
       country = ''AU'', city = ''Sydney'',
       coordinates = \<lparr>lat = - fl F 33.8688, lon = fl F 151.2093\<rparr>,
       host = ''sydney.speedtest.example.com'', port = 3001, capacity = 500,
       activeConnections = 0, status = ''online''\<rparr>]"

text \<open>
  \<open>calculateDistance\<close>, operation by operation in the order in which JavaScript
  evaluates the expressions. The value \<open>a\<close> is computed by \<open>haversine_a\<close>; when
  rounding leaves \<open>a\<close> above 1, \<open>Math.sqrt(1-a)\<close> is \<open>NaN\<close> and so is the
  distance.
\<close>

definition haversine_a :: "arith \<Rightarrow> real \<Rightarrow> real \<Rightarrow> real \<Rightarrow> real \<Rightarrow> real" where
  "haversine_a F lat1 lon1 lat2 lon2 =
     (let dLat = fdiv F (fmul F (fsub F lat2 lat1) (math_PI F)) 180;
          dLon = fdiv F (fmul F (fsub F lon2 lon1) (math_PI F)) 180
      in fadd F
           (fmul F (fl_sin F (fdiv F dLat 2)) (fl_sin F (fdiv F dLat 2)))
           (fmul F
              (fmul F
                 (fmul F (fl_cos F (fdiv F (fmul F lat1 (math_PI F)) 180))
                         (fl_cos F (fdiv F (fmul F lat2 (math_PI F)) 180)))
                 (fl_sin F (fdiv F dLon 2)))
              (fl_sin F (fdiv F dLon 2))))"

definition calculateDistance ::
  "arith \<Rightarrow> real \<Rightarrow> real \<Rightarrow> real \<Rightarrow> real \<Rightarrow> real option"
where
  "calculateDistance F lat1 lon1 lat2 lon2 =
     (let R = 6371;
          a = haversine_a F lat1 lon1 lat2 lon2
      in case (math_sqrt F a, math_sqrt F (fsub F 1 a)) of
           (Some y, Some x) \<Rightarrow> Some (fmul F R (fmul F 2 (fl_atan2 F y x)))
         | _ \<Rightarrow> None)"

text \<open>A latitude and longitude in degrees, as a geolocation database gives them.\<close>

definition valid_coordinates :: "real \<Rightarrow> real \<Rightarrow> bool" where
  "valid_coordinates la lo = (- 90 \<le> la \<and> la \<le> 90 \<and> - 180 \<le> lo \<and> lo \<le> 180)"

text \<open>
  The words of the specification: the great-circle distance in kilometres by the
  standard haversine formula, with the Earth's radius 6371 km.
\<close>

definition haversine_km :: "real \<Rightarrow> real \<Rightarrow> real \<Rightarrow> real \<Rightarrow> real" where
  "haversine_km lat1 lon1 lat2 lon2 =
     (let phi1 = lat1 * pi / 180;
          phi2 = lat2 * pi / 180;
          dphi = (lat2 - lat1) * pi / 180;
          dlambda = (lon2 - lon1) * pi / 180;
          h = (sin (dphi / 2))\<^sup>2 + cos phi1 * cos phi2 * (sin (dlambda / 2))\<^sup>2
      in 2 * 6371 * arcsin (sqrt h))"

section \<open>API server: optimal server (server.js, \<open>GET /api/optimal-server\<close>)\<close>

text \<open>
  \<open>geoip.lookup\<close> answers \<open>null\<close> or an object whose field \<open>ll\<close> holds the
  pair of latitude and longitude, when known.
\<close>

record geo =
  ll :: "(real \<times> real) option"

text \<open>
  The loop over the registry. The two variables \<open>optimalServer\<close> and
  \<open>minDistance\<close> are assigned together: \<open>None\<close> is the initial pair
  \<open>(null, Infinity)\<close>. The comparison \<open>distance < minDistance\<close> is false for a
  \<open>NaN\<close> distance and true for a finite one against \<open>Infinity\<close>; between two
  doubles it is the comparison of the numbers they denote.
\<close>

definition js_less_than_min :: "real option \<Rightarrow> (testServer \<times> real) option \<Rightarrow> bool" where
  "js_less_than_min distance best =
     (case distance of
        None \<Rightarrow> False
      | Some d \<Rightarrow> (case best of None \<Rightarrow> True | Some (_, minDistance) \<Rightarrow> d < minDistance))"

fun closest ::
  "arith \<Rightarrow> real \<times> real \<Rightarrow> testServer list \<Rightarrow> (testServer \<times> real) option
     \<Rightarrow> (testServer \<times> real) option"
where
  "closest F c [] best = best"
| "closest F c (server # rest) best =
     (let distance = calculateDistance F (fst c) (snd c)
                       (lat (coordinates server)) (lon (coordinates server))
      in if js_less_than_min distance best \<and> status server = ''online''
         then closest F c rest (Some (server, the distance))
         else closest F c rest best)"

text \<open>
  The answers of the handler: the first registry entry as it is (location unknown);
  a copy of the closest online entry with its \<open>distance\<close> and \<open>latency\<close>; the first
  entry with the latency \<open>Infinity\<close> when no entry qualified; status 500 from the
  \<open>catch\<close>, reached when the registry is empty and \<open>optimalServer.latency\<close> is
  assigned on \<open>undefined\<close>. With an empty registry and no location the handler
  sends \<open>undefined\<close>. \<open>Math.floor\<close> and the addition of 10 are exact on the
  doubles that occur.
\<close>

datatype optimal_response =
    Primary testServer
  | Closest testServer real int
  | Unranked testServer
  | Nothing
  | Failed_500

definition optimal_server :: "arith \<Rightarrow> testServer list \<Rightarrow> geo option \<Rightarrow> optimal_response" where
  "optimal_server F servers g =
     (case (case g of None \<Rightarrow> None | Some g' \<Rightarrow> ll g') of
        None \<Rightarrow> (case servers of [] \<Rightarrow> Nothing | s # _ \<Rightarrow> Primary s)
      | Some c \<Rightarrow>
          (case closest F c servers None of
             Some (server, minDistance) \<Rightarrow>
               Closest server minDistance (\<lfloor>fmul F minDistance (fl F 0.1)\<rfloor> + 10)
           | None \<Rightarrow> (case servers of [] \<Rightarrow> Failed_500 | s # _ \<Rightarrow> Unranked s)))"

section \<open>API server: result store (server.js, \<open>POST /api/save-results\<close>, \<open>GET /api/results/:id\<close>)\<close>

text \<open>
  The body of a save request is the JSON object the client builds in
  \<open>saveResults\<close>: \<open>{id, timestamp, server, results, userInfo}\<close>. Every field
  may be missing from a body that another client posts; \<open>server\<close> is \<open>null\<close>
  when the client has selected no server. The handler reads \<open>server.id\<close> and
  \<open>results.ping\<close>, \<open>results.download\<close>, \<open>results.upload\<close>, and writes
  \<open>id\<close>, \<open>timestamp\<close> and \<open>clientIp\<close>.
\<close>

record serverRef =
  ref_id :: nat
  ref_name :: string

record userInfo =
  ip :: string
  isp :: string

record resultRecord =
  result_id :: "string option"
  timestamp :: "string option"
  clientIp :: "string option"
  server :: "serverRef option"
  results :: "measurements option"
  userInfo :: "userInfo option"

record stats =
  totalTests :: nat
  avgPing :: real
  avgDownload :: real
  avgUpload :: real
  lastUpdated :: string

text \<open>The two maps \<open>testResults\<close> and \<open>serverStats\<close> of the process.\<close>

record store =
  testResults :: "string \<rightharpoonup> resultRecord"
  serverStats :: "nat \<rightharpoonup> stats"

definition empty_store :: store where
  "empty_store = \<lparr>testResults = Map.empty, serverStats = Map.empty\<rparr>"

text \<open>
  What a request brings with it besides the body: the identifier that \<open>uuidv4()\<close>
  returns, the time that \<open>new Date().toISOString()\<close> returns (the handler reads
  the clock up to three times; the model uses one reading), and the client address
  (\<open>x-forwarded-for\<close> or the socket's address, possibly \<open>undefined\<close>).
\<close>

record save_request =
  uuid :: string
  now :: string
  remote :: "string option"
  body :: resultRecord

datatype save_response =
    Saved string
  | Save_failed_500

text \<open>
  The statistics update. \<open>stats\<close> is the object found in \<open>serverStats\<close>, or a
  fresh one; \<open>stats.totalTests++\<close> comes first and the three averages read the
  new count.
\<close>

definition fresh_stats :: "string \<Rightarrow> stats" where
  "fresh_stats t = \<lparr>totalTests = 0, avgPing = 0, avgDownload = 0, avgUpload = 0,
                     lastUpdated = t\<rparr>"

definition bump_totalTests :: "stats \<Rightarrow> stats" where
  "bump_totalTests s = s\<lparr>totalTests := totalTests s + 1\<rparr>"

definition update_stats :: "stats \<Rightarrow> measurements \<Rightarrow> string \<Rightarrow> stats" where
  "update_stats s0 m t =
     (let s1 = bump_totalTests s0;
          s2 = s1\<lparr>avgPing := (avgPing s1 * (real (totalTests s1) - 1) + ping m)
                                / real (totalTests s1)\<rparr>;
          s3 = s2\<lparr>avgDownload := (avgDownload s2 * (real (totalTests s2) - 1) + download m)
                                    / real (totalTests s2)\<rparr>;
          s4 = s3\<lparr>avgUpload := (avgUpload s3 * (real (totalTests s3) - 1) + upload m)
                                  / real (totalTests s3)\<rparr>
      in s4\<lparr>lastUpdated := t\<rparr>)"

text \<open>
  The handler. The record is stored before the statistics are touched. When the body
  names a server with a truthy \<open>id\<close> and has no \<open>results\<close>, reading
  \<open>results.results.ping\<close> throws a \<open>TypeError\<close> after
  \<open>stats.totalTests++\<close>; the \<open>catch\<close> answers status 500. The increment has then
  been made on the object that \<open>serverStats\<close> holds, if it held one, and on a
  fresh object that is dropped, if it held none.
\<close>

definition save_results :: "save_request \<Rightarrow> store \<Rightarrow> save_response \<times> store" where
  "save_results req st =
     (let testId = uuid req;
          rec = (body req)\<lparr>result_id := Some testId, timestamp := Some (now req),
                             clientIp := remote req\<rparr>;
          st1 = st\<lparr>testResults := (testResults st)(testId \<mapsto> rec)\<rparr>
      in case server rec of
           None \<Rightarrow> (Saved testId, st1)
         | Some srv \<Rightarrow>
             if ref_id srv = 0 then (Saved testId, st1)
             else
               (let serverId = ref_id srv in
                case results rec of
                  None \<Rightarrow>
                    (Save_failed_500,
                     case serverStats st1 serverId of
                       None \<Rightarrow> st1
                     | Some s0 \<Rightarrow>
                         st1\<lparr>serverStats := (serverStats st1)(serverId \<mapsto> bump_totalTests s0)\<rparr>)
                | Some m \<Rightarrow>
                    (let s0 = (case serverStats st1 serverId of
                                 None \<Rightarrow> fresh_stats (now req)
                               | Some s \<Rightarrow> s)
                     in (Saved testId,
                         st1\<lparr>serverStats :=
                               (serverStats st1)(serverId \<mapsto> update_stats s0 m (now req))\<rparr>))))"

text \<open>A history of save requests, handled one after the other.\<close>

fun save_all :: "save_request list \<Rightarrow> store \<Rightarrow> store" where
  "save_all [] st = st"
| "save_all (req # reqs) st = save_all reqs (snd (save_results req st))"

datatype get_response =
    Found resultRecord
  | Not_found_404

definition get_results :: "string \<Rightarrow> store \<Rightarrow> get_response" where
  "get_results testId st =
     (case testResults st testId of
        None \<Rightarrow> Not_found_404
      | Some rec \<Rightarrow> Found rec)"

text \<open>
  The words of the specification about the averages: a result references a server
  when its \<open>server.id\<close> is that server's, and the samples of a server are the
  measurements of the results that reference it, in the order of arrival.
\<close>

definition references :: "nat \<Rightarrow> save_request \<Rightarrow> bool" where
  "references sid req =
     (case server (body req) of None \<Rightarrow> False | Some srv \<Rightarrow> ref_id srv = sid)"

definition samples :: "nat \<Rightarrow> save_request list \<Rightarrow> measurements list" where
  "samples sid reqs =
     concat (map (\<lambda>req. if references sid req
                           then (case results (body req) of None \<Rightarrow> [] | Some m \<Rightarrow> [m])
                           else []) reqs)"

definition mean :: "real list \<Rightarrow> real" where
  "mean xs = sum_list xs / real (length xs)"

definition accepted :: "save_request \<Rightarrow> bool" where
  "accepted req =
     (case server (body req) of
        None \<Rightarrow> True
      | Some srv \<Rightarrow> ref_id srv = 0 \<or> results (body req) \<noteq> None)"

text \<open>
  The invariant of the statistics of one server, against the list of the samples
  folded in so far: no entry before the first sample; afterwards the count and the
  three means of the list.
\<close>

fun stats_inv :: "stats option \<Rightarrow> measurements list \<Rightarrow> bool" where
  "stats_inv None ms = (ms = [])"
| "stats_inv (Some s) ms =
     (ms \<noteq> [] \<and> totalTests s = length ms
      \<and> avgPing s = mean (map ping ms)
      \<and> avgDownload s = mean (map download ms)
      \<and> avgUpload s = mean (map upload ms))"

text \<open>Sample requests for the evaluations below.\<close>

definition sample_request :: "string \<Rightarrow> nat \<Rightarrow> real \<Rightarrow> save_request" where
  "sample_request u sid p =
     \<lparr>uuid = u, now = ''2024-01-01T00:00:00.000Z'', remote = Some ''127.0.0.1'',
      body = \<lparr>result_id = Some ''TEST_1'', timestamp = Some ''client time'', clientIp = None,
               server = Some \<lparr>ref_id = sid, ref_name = ''Primary Server''\<rparr>,
               results = Some \<lparr>ping = p, jitter = 1, download = 4 * p, upload = 2 * p,
                                packetLoss = 0\<rparr>,
               userInfo = None\<rparr>\<rparr>"

definition sample_history :: "save_request list" where
  "sample_history =
     [sample_request ''a'' 1 10, sample_request ''b'' 2 70, sample_request ''c'' 1 20]"

definition sample_without_results :: save_request where
  "sample_without_results =
     \<lparr>uuid = ''d'', now = ''2024-01-01T00:00:00.000Z'', remote = Some ''127.0.0.1'',
      body = \<lparr>result_id = Some ''TEST_1'', timestamp = Some ''client time'', clientIp = None,
               server = Some \<lparr>ref_id = 1, ref_name = ''Primary Server''\<rparr>,
               results = None, userInfo = None\<rparr>\<rparr>"

text \<open>
  A history in which a request without \<open>results\<close> comes between two accepted
  results for server 1.
\<close>

definition rejected_between :: "save_request list" where
  "rejected_between =
     [sample_request ''a'' 1 10, sample_without_results, sample_request ''c'' 1 40]"

section \<open>Test server: size parameter (server.js, second part, and the worker template)\<close>

text \<open>
  \<open>parseInt\<close> with no radix, after ECMAScript: leading white space is skipped, a
  sign is read, a prefix \<open>0x\<close> or \<open>0X\<close> selects radix 16 (else 10), and the
  longest run of digits of the radix is the value; without a digit the result is
  \<open>NaN\<close> (\<open>None\<close>). A string is a list of code units below 256 here, so the
  white space of the model is the white space of Latin-1. A query parameter that is
  absent is \<open>undefined\<close>, which \<open>parseInt\<close> reads as the string
  \<open>undefined\<close>; a parameter given several times (an array) is outside the model.
  The value is an exact integer, where the program has the nearest double: the two
  agree up to \<open>2^53\<close>, far above the ceiling of the download size.
\<close>

definition is_space :: "char \<Rightarrow> bool" where
  "is_space c = (of_char c \<in> {9, 10, 11, 12, 13, 32, 160 :: nat})"

definition digit_value :: "char \<Rightarrow> nat" where
  "digit_value c =
     (let n = of_char c :: nat in
      if 48 \<le> n \<and> n \<le> 57 then n - 48
      else if 97 \<le> n \<and> n \<le> 122 then n - 87
      else if 65 \<le> n \<and> n \<le> 90 then n - 55
      else 36)"

definition is_digit :: "nat \<Rightarrow> char \<Rightarrow> bool" where
  "is_digit R c = (digit_value c < R)"

definition digits_value :: "nat \<Rightarrow> string \<Rightarrow> nat" where
  "digits_value R Z = foldl (\<lambda>acc c. acc * R + digit_value c) 0 Z"

definition parseInt_string :: "string \<Rightarrow> int option" where
  "parseInt_string inputString =
     (let S0 = dropWhile is_space inputString;
          sign = (if take 1 S0 = ''-'' then - 1 else 1 :: int);
          S1 = (if take 1 S0 = ''+'' \<or> take 1 S0 = ''-'' then drop 1 S0 else S0);
          hex = (take 2 S1 = ''0x'' \<or> take 2 S1 = ''0X'');
          R = (if hex then 16 else 10);
          S2 = (if hex then drop 2 S1 else S1);
          Z = takeWhile (is_digit R) S2
      in if Z = [] then None else Some (sign * int (digits_value R Z)))"

definition parseInt :: "string option \<Rightarrow> int option" where
  "parseInt arg = parseInt_string (case arg of None \<Rightarrow> ''undefined'' | Some s \<Rightarrow> s)"

text \<open>\<open>x || d\<close> on a number: \<open>NaN\<close> and \<open>0\<close> are falsy.\<close>

definition or_default :: "int option \<Rightarrow> int \<Rightarrow> int" where
  "or_default x d = (case x of None \<Rightarrow> d | Some n \<Rightarrow> if n = 0 then d else n)"

definition download_size :: "string option \<Rightarrow> int" where
  "download_size q =
     (let sz = or_default (parseInt q) (10 * 1024 * 1024)
      in if sz > 100 * 1024 * 1024 then 100 * 1024 * 1024 else sz)"

section \<open>Test server: download stream (server.js, second part, \<open>GET /download\<close>)\<close>

text \<open>
  \<open>generateRandomData size\<close> is \<open>Buffer.alloc(size, s)\<close> for a random string
  \<open>s\<close>: \<open>size\<close> bytes that repeat \<open>s\<close>, or zero bytes when \<open>s\<close> is empty.
\<close>

definition generateRandomData :: "string \<Rightarrow> nat \<Rightarrow> string" where
  "generateRandomData s n =
     (if s = [] then replicate n (char_of (0 :: nat))
      else map (\<lambda>i. s ! (i mod length s)) [0..<n])"

text \<open>
  What the environment decides at each \<open>res.write\<close>: the random string of the chunk,
  the value that \<open>write\<close> returns (\<open>False\<close>: the chunk has been queued and the
  socket asks the producer to wait for \<open>drain\<close>), and whether the request's
  \<open>close\<close> event fires before \<open>sendChunk\<close> runs again from the event loop. When
  the list is used up, every later write returns \<open>True\<close> and the client stays.
  A chunk handed to \<open>write\<close> is part of the response whatever \<open>write\<close> returns.
\<close>

record write_env =
  fill :: string
  flushed :: bool
  closed_after :: bool

definition chunkSize :: int where
  "chunkSize = 64 * 1024"

function sendChunk :: "int \<Rightarrow> write_env list \<Rightarrow> bool \<Rightarrow> int \<Rightarrow> string list" where
  "sendChunk sz env active bytesSent =
     (if bytesSent \<ge> sz \<or> \<not> active then []
      else
        (let remaining = sz - bytesSent;
             currentChunkSize = min chunkSize remaining
         in case env of
              [] \<Rightarrow>
                generateRandomData [] (nat currentChunkSize)
                  # sendChunk sz [] active (bytesSent + currentChunkSize)
            | e # env' \<Rightarrow>
                generateRandomData (fill e) (nat currentChunkSize)
                  # (if flushed e
                     then (if bytesSent + currentChunkSize < sz
                           then sendChunk sz env' (active \<and> \<not> closed_after e)
                                  (bytesSent + currentChunkSize)
                           else sendChunk sz env' active (bytesSent + currentChunkSize))
                     else sendChunk sz env' (active \<and> \<not> closed_after e) bytesSent)))"
  by pat_completeness auto
termination
  by (relation "measure (\<lambda>(sz, env, active, bytesSent). nat (sz - bytesSent) + length env)")
     (auto simp: chunkSize_def)

record download_response =
  status_code :: nat
  content_length :: int
  chunks :: "string list"

definition download_handler :: "string option \<Rightarrow> write_env list \<Rightarrow> download_response" where
  "download_handler q env =
     (let sz = download_size q
      in \<lparr>status_code = 200, content_length = sz, chunks = sendChunk sz env True 0\<rparr>)"

definition body_length :: "string list \<Rightarrow> int" where
  "body_length cs = int (length (concat cs))"

declare sendChunk.simps [simp del]

section \<open>Worker template (part 000): payload cache and download\<close>

text \<open>
  The per-worker state: the cache \<open>testDataCache\<close> (a \<open>Map\<close> from sizes to
  buffers) and the two counters. \<open>Buffer.alloc\<close> throws a \<open>RangeError\<close> for a
  negative size; the platform's upper limit on a buffer's length is not modelled.
  The argument \<open>rnd\<close> gives the values that \<open>Math.random()\<close> returns during
  one call, in order.
\<close>

record worker_state =
  testDataCache :: "int \<rightharpoonup> string"
  totalBytesServed :: int
  worker_totalTests :: nat

definition empty_worker :: worker_state where
  "empty_worker = \<lparr>testDataCache = Map.empty, totalBytesServed = 0, worker_totalTests = 0\<rparr>"

datatype js_error = RangeError

definition getTestData ::
  "(nat \<Rightarrow> real) \<Rightarrow> int \<Rightarrow> worker_state \<Rightarrow> js_error + (string \<times> worker_state)"
where
  "getTestData rnd sz w =
     (case testDataCache w sz of
        Some data \<Rightarrow> Inr (data, w)
      | None \<Rightarrow>
          if sz < 0 then Inl RangeError
          else
            (let data = map (\<lambda>i. char_of (nat \<lfloor>rnd i * 256\<rfloor>)) [0..<nat sz]
             in Inr (data, w\<lparr>testDataCache := (testDataCache w)(sz \<mapsto> data)\<rparr>)))"

text \<open>A sequence of generation requests; a request that throws leaves the state as it was.\<close>

fun generate_all :: "((nat \<Rightarrow> real) \<times> int) list \<Rightarrow> worker_state \<Rightarrow> worker_state" where
  "generate_all [] w = w"
| "generate_all ((rnd, sz) # rest) w =
     (case getTestData rnd sz w of
        Inl _ \<Rightarrow> generate_all rest w
      | Inr (_, w') \<Rightarrow> generate_all rest w')"

definition worker_chunkSize :: int where
  "worker_chunkSize = 256 * 1024"

text \<open>
  The worker's \<open>sendChunk\<close>: the environment is the list of the values that
  \<open>res.write\<close> returns. The function returns the chunks written from the given
  offset on.
\<close>

function worker_sendChunk :: "string \<Rightarrow> int \<Rightarrow> bool list \<Rightarrow> int \<Rightarrow> string list" where
  "worker_sendChunk data sz env offset =
     (if offset \<ge> sz then []
      else
        (let end = min (offset + worker_chunkSize) sz;
             chunk = take (nat (end - offset)) (drop (nat offset) data)
         in case env of
              [] \<Rightarrow> chunk # worker_sendChunk data sz [] end
            | ok # env' \<Rightarrow>
                chunk # (if ok then worker_sendChunk data sz env' end
                         else worker_sendChunk data sz env' offset)))"
  by pat_completeness auto
termination
  by (relation "measure (\<lambda>(data, sz, env, offset). nat (sz - offset) + length env)")
     (auto simp: worker_chunkSize_def)

declare worker_sendChunk.simps [simp del]

datatype worker_response =
    Stream int "string list"
  | Worker_failed_500

text \<open>
  The worker's handler. An exception thrown by \<open>getTestData\<close> leaves the handler
  and Express answers status 500. \<open>totalBytesServed\<close> is increased when the last
  chunk has gone.
\<close>

definition worker_download ::
  "(nat \<Rightarrow> real) \<Rightarrow> string option \<Rightarrow> bool list \<Rightarrow> worker_state \<Rightarrow> worker_response \<times> worker_state"
where
  "worker_download rnd q env w0 =
     (let w1 = w0\<lparr>worker_totalTests := worker_totalTests w0 + 1\<rparr>;
          sz = min (or_default (parseInt q) (10 * 1024 * 1024)) (100 * 1024 * 1024)
      in case getTestData rnd sz w1 of
           Inl _ \<Rightarrow> (Worker_failed_500, w1)
         | Inr (data, w2) \<Rightarrow>
             (Stream sz (worker_sendChunk data sz env 0),
              w2\<lparr>totalBytesServed := totalBytesServed w2 + sz\<rparr>))"

definition backpressure_once :: "write_env list" where
  "backpressure_once = [\<lparr>fill = ''k3j9x'', flushed = False, closed_after = False\<rparr>]"

text \<open>\<open>k\<close> generation requests for the \<open>k\<close> sizes \<open>0, \<dots>, k - 1\<close>.\<close>

definition fresh_sizes :: "nat \<Rightarrow> ((nat \<Rightarrow> real) \<times> int) list" where
  "fresh_sizes k = map (\<lambda>i. (\<lambda>_. 0, int i)) [0..<k]"

section \<open>Client: download phase (script.js, \<open>SpeedTest.runDownloadTest\<close>)\<close>

text \<open>
  A progress event of one of the parallel requests: which request it belongs to,
  and its fields \<open>lengthComputable\<close> and \<open>loaded\<close> (the bytes that this request
  has received so far).
\<close>

record progress_event =
  xhr :: nat
  lengthComputable :: bool
  loaded :: int

text \<open>
  The two variables that the handlers share: the local \<open>totalBytes\<close> of
  \<open>runDownloadTest\<close> and the field \<open>this.loadedBytes\<close>, which \<open>resetTest\<close>
  sets to 0 before the run.
\<close>

record download_phase =
  totalBytes :: int
  loadedBytes :: int

definition download_start :: download_phase where
  "download_start = \<lparr>totalBytes = 0, loadedBytes = 0\<rparr>"

definition connections :: nat where
  "connections = 4"

definition onprogress :: "progress_event \<Rightarrow> download_phase \<Rightarrow> download_phase" where
  "onprogress event s =
     (if lengthComputable event
      then s\<lparr>totalBytes := totalBytes s
                  + (loaded event - (if loadedBytes s = 0 then 0 else loadedBytes s)),
             loadedBytes := loaded event\<rparr>
      else s)"

fun progress_all :: "progress_event list \<Rightarrow> download_phase \<Rightarrow> download_phase" where
  "progress_all [] s = s"
| "progress_all (event # events) s = progress_all events (onprogress event s)"

text \<open>
  The figure computed at the end of the phase and at each event, in Mbps;
  \<open>None\<close> is the \<open>NaN\<close> or \<open>Infinity\<close> of a division by an elapsed time of 0.
\<close>

definition speedMbps :: "int \<Rightarrow> real \<Rightarrow> real option" where
  "speedMbps bytes elapsed =
     (if elapsed * 1000 = 0 then None else Some ((real_of_int bytes * 8) / (elapsed * 1000)))"

text \<open>
  The words of the specification: the bytes received so far by one sub-transfer are
  the \<open>loaded\<close> of its latest event, and the total is the sum over the
  sub-transfers.
\<close>

definition received :: "progress_event list \<Rightarrow> nat \<Rightarrow> int" where
  "received events i =
     (case filter (\<lambda>e. xhr e = i) events of [] \<Rightarrow> 0 | es \<Rightarrow> loaded (last es))"

definition received_total :: "progress_event list \<Rightarrow> int" where
  "received_total events = (\<Sum>i < connections. received events i)"

definition two_transfers :: "progress_event list" where
  "two_transfers =
     [\<lparr>xhr = 0, lengthComputable = True, loaded = 1000\<rparr>,
      \<lparr>xhr = 1, lengthComputable = True, loaded = 1000\<rparr>]"

section \<open>Client: orchestration (script.js, \<open>startTest\<close>, \<open>stopTest\<close>, \<open>saveResults\<close>)\<close>

text \<open>
  \<open>startTest\<close> is an \<open>async\<close> function: it runs until its first \<open>await\<close> and
  is resumed by the event loop when the awaited promise settles. A suspended
  invocation is the identifier of its run and the phase whose promise it awaits
  (\<open>calculateJitter\<close> awaits nothing). The ping phase, a loop of awaited probes, is
  one await here.
\<close>

datatype awaited = Await_ping | Await_download | Await_upload

record invocation =
  testId :: string
  awaits :: awaited

text \<open>
  The state of the page: the flag \<open>config.isTesting\<close>; the field
  \<open>currentTest\<close> (a request with an \<open>abort\<close> method, or \<open>null\<close>); the requests
  on which \<open>abort\<close> has been called; the stored history (the key
  \<open>speedtest_history\<close> of \<open>localStorage\<close>, newest first; an entry is named by
  its test id) and the results posted to the API server; the text of the progress
  line; the suspended invocations of \<open>startTest\<close>.
\<close>

record page =
  isTesting :: bool
  currentTest :: "nat option"
  aborted :: "nat list"
  history :: "string list"
  posted :: "string list"
  testPhase :: string
  suspended :: "invocation list"

definition page_start :: page where
  "page_start = \<lparr>isTesting = False, currentTest = None, aborted = [], history = [],
                  posted = [], testPhase = ''Ready'', suspended = []\<rparr>"

definition stopTest :: "page \<Rightarrow> page" where
  "stopTest p =
     (let p1 = (case currentTest p of
                  Some x \<Rightarrow> p\<lparr>aborted := aborted p @ [x]\<rparr>
                | None \<Rightarrow> p)
      in p1\<lparr>isTesting := False, testPhase := ''Test stopped''\<rparr>)"

text \<open>
  A click on the start button calls \<open>startTest\<close>; \<open>tid\<close> is the identifier that
  the invocation generates if it starts a run.
\<close>

definition startTest :: "string \<Rightarrow> page \<Rightarrow> page" where
  "startTest tid p =
     (if isTesting p then stopTest p
      else p\<lparr>isTesting := True, testPhase := ''Testing ping...'',
             suspended := suspended p @ [\<lparr>testId = tid, awaits = Await_ping\<rparr>]\<rparr>)"

definition saveResults :: "string \<Rightarrow> page \<Rightarrow> page" where
  "saveResults tid p =
     (let h = tid # history p;
          h' = (if length h > 50 then take 50 h else h)
      in p\<lparr>history := h', posted := posted p @ [tid]\<rparr>)"

text \<open>
  The \<open>k\<close>-th suspended invocation is resumed: its promise was fulfilled
  (\<open>ok\<close>) or rejected. After the upload phase the invocation computes the jitter,
  calls \<open>saveResults\<close> and \<open>showCompletion\<close>; a rejection goes to the
  \<open>catch\<close>; both ways end in the \<open>finally\<close> block. No step of the invocation
  reads \<open>isTesting\<close>.
\<close>

definition resume :: "nat \<Rightarrow> bool \<Rightarrow> page \<Rightarrow> page" where
  "resume k ok p =
     (if k \<ge> length (suspended p) then p
      else
        (let inv = suspended p ! k;
             others = take k (suspended p) @ drop (Suc k) (suspended p)
         in if \<not> ok
            then p\<lparr>testPhase := ''Test failed'', isTesting := False, suspended := others\<rparr>
            else
              (case awaits inv of
                 Await_ping \<Rightarrow>
                   p\<lparr>testPhase := ''Testing download speed...'',
                     suspended := (suspended p)[k := inv\<lparr>awaits := Await_download\<rparr>]\<rparr>
               | Await_download \<Rightarrow>
                   p\<lparr>testPhase := ''Testing upload speed...'',
                     suspended := (suspended p)[k := inv\<lparr>awaits := Await_upload\<rparr>]\<rparr>
               | Await_upload \<Rightarrow>
                   (saveResults (testId inv) p)
                     \<lparr>testPhase := ''Test complete!'', isTesting := False,
                      suspended := others\<rparr>)))"

datatype page_event = Click string | Settled nat bool

fun handle :: "page_event \<Rightarrow> page \<Rightarrow> page" where
  "handle (Click tid) p = startTest tid p"
| "handle (Settled k ok) p = resume k ok p"

fun handle_all :: "page_event list \<Rightarrow> page \<Rightarrow> page" where
  "handle_all [] p = p"
| "handle_all (e # es) p = handle_all es (handle e p)"

text \<open>
  A run that is stopped during its download phase: start, ping done, stop, and then
  the promises of the download and upload phases are fulfilled.
\<close>

definition stopped_in_download :: "page_event list" where
  "stopped_in_download = [Click ''TEST_1'', Settled 0 True, Click ''TEST_2'']"

definition stopped_run :: "page_event list" where
  "stopped_run = stopped_in_download @ [Settled 0 True, Settled 0 True]"

section \<open>Theorems\<close>

subsection \<open>Haversine distance\<close>

lemma exact_ops:
  "fadd exact_arith x y = x + y" "fsub exact_arith x y = x - y"
  "fmul exact_arith x y = x * y" "fdiv exact_arith x y = x / y"
  "math_PI exact_arith = pi" "fl exact_arith x = x"
  "fl_sin exact_arith = sin" "fl_cos exact_arith = cos" "fl_atan2 exact_arith = atan2"
  by (simp_all add: fadd_def fsub_def fmul_def fdiv_def math_PI_def exact_arith_def)

lemma haversine_a_exact:
  "haversine_a exact_arith lat1 lon1 lat2 lon2 =
     sin ((lat2 - lat1) * pi / 180 / 2) * sin ((lat2 - lat1) * pi / 180 / 2) +
     cos (lat1 * pi / 180) * cos (lat2 * pi / 180) *
     sin ((lon2 - lon1) * pi / 180 / 2) * sin ((lon2 - lon1) * pi / 180 / 2)"
  unfolding haversine_a_def Let_def exact_ops ..

lemma calculateDistance_exact:
  "calculateDistance exact_arith lat1 lon1 lat2 lon2 =
     (let a = haversine_a exact_arith lat1 lon1 lat2 lon2
      in if a < 0 \<or> 1 - a < 0 then None
         else Some (6371 * (2 * atan2 (sqrt a) (sqrt (1 - a)))))"
  by (simp add: calculateDistance_def math_sqrt_def exact_ops Let_def)

lemma haversine_a_sym:
  "haversine_a exact_arith lat2 lon2 lat1 lon1 = haversine_a exact_arith lat1 lon1 lat2 lon2"
proof -
  have 1: "(lat1 - lat2) * pi / 180 / 2 = - ((lat2 - lat1) * pi / 180 / 2)" by (simp add: field_simps)
  have 2: "(lon1 - lon2) * pi / 180 / 2 = - ((lon2 - lon1) * pi / 180 / 2)" by (simp add: field_simps)
  show ?thesis
    unfolding haversine_a_exact 1 2 sin_minus by (simp add: mult.commute mult.left_commute)
qed

lemma haversine_a_self: "haversine_a exact_arith la lo la lo = 0"
  by (simp add: haversine_a_exact)

lemma calculateDistance_self: "calculateDistance exact_arith la lo la lo = Some 0"
  by (simp add: calculateDistance_exact haversine_a_self atan2_def)

lemma calculateDistance_sym:
  "calculateDistance exact_arith lat2 lon2 lat1 lon1 = calculateDistance exact_arith lat1 lon1 lat2 lon2"
  by (simp add: calculateDistance_exact haversine_a_sym)

lemma deg_range:
  assumes "- 90 \<le> x" "x \<le> 90"
  shows "- (pi / 2) \<le> x * pi / 180" "x * pi / 180 \<le> pi / 2"
proof -
  have p: "0 \<le> pi / 180" by simp
  have "(- 90) * (pi / 180) \<le> x * (pi / 180)" using assms(1) p by (rule mult_right_mono)
  then show "- (pi / 2) \<le> x * pi / 180" by simp
  have "x * (pi / 180) \<le> 90 * (pi / 180)" using assms(2) p by (rule mult_right_mono)
  then show "x * pi / 180 \<le> pi / 2" by simp
qed

lemma sin_sq_bounds: "0 \<le> sin x * sin x" "sin x * sin x \<le> 1" for x :: real
proof -
  show "0 \<le> sin x * sin x" by (rule zero_le_square)
  have "sin x * sin x + cos x * cos x = 1"
    using sin_cos_squared_add [of x] by (simp only: power2_eq_square)
  moreover have "0 \<le> cos x * cos x" by (rule zero_le_square)
  ultimately show "sin x * sin x \<le> 1" by linarith
qed

lemma sin_sq_half: "sin (t / 2) * sin (t / 2) = (1 - cos t) / 2" for t :: real
proof -
  have "cos t = cos (2 * (t / 2))" by simp
  also have "\<dots> = 1 - 2 * (sin (t / 2))\<^sup>2" by (rule cos_double_sin)
  finally have "cos t = 1 - 2 * (sin (t / 2) * sin (t / 2))"
    by (simp only: power2_eq_square)
  then show ?thesis by argo
qed

lemma haversine_a_form:
  "haversine_a exact_arith lat1 lon1 lat2 lon2 =
     sin ((lat2 * pi / 180 - lat1 * pi / 180) / 2) * sin ((lat2 * pi / 180 - lat1 * pi / 180) / 2) +
     cos (lat1 * pi / 180) * cos (lat2 * pi / 180) *
       (sin ((lon2 - lon1) * pi / 180 / 2) * sin ((lon2 - lon1) * pi / 180 / 2))"
proof -
  have d: "(lat2 - lat1) * pi / 180 / 2 = (lat2 * pi / 180 - lat1 * pi / 180) / 2"
    by (simp add: field_simps)
  show ?thesis unfolding haversine_a_exact d by (simp only: mult.assoc)
qed

lemma haversine_a_nonneg:
  assumes "- 90 \<le> lat1" "lat1 \<le> 90" "- 90 \<le> lat2" "lat2 \<le> 90"
  shows "0 \<le> haversine_a exact_arith lat1 lon1 lat2 lon2"
proof -
  have c1: "0 \<le> cos (lat1 * pi / 180)" using assms by (intro cos_ge_zero deg_range)
  have c2: "0 \<le> cos (lat2 * pi / 180)" using assms by (intro cos_ge_zero deg_range)
  show ?thesis unfolding haversine_a_form
    by (intro add_nonneg_nonneg mult_nonneg_nonneg c1 c2 sin_sq_bounds)
qed

lemma haversine_a_le_1:
  assumes "- 90 \<le> lat1" "lat1 \<le> 90" "- 90 \<le> lat2" "lat2 \<le> 90"
  shows "haversine_a exact_arith lat1 lon1 lat2 lon2 \<le> 1"
proof -
  define p where "p = lat1 * pi / 180"
  define q where "q = lat2 * pi / 180"
  define s where "s = sin ((lon2 - lon1) * pi / 180 / 2) * sin ((lon2 - lon1) * pi / 180 / 2)"
  have c1: "0 \<le> cos p" unfolding p_def using assms by (intro cos_ge_zero deg_range)
  have c2: "0 \<le> cos q" unfolding q_def using assms by (intro cos_ge_zero deg_range)
  have s01: "0 \<le> s" "s \<le> 1" unfolding s_def by (rule sin_sq_bounds)+
  have h: "sin ((q - p) / 2) * sin ((q - p) / 2) = (1 - cos (q - p)) / 2"
    by (rule sin_sq_half)
  have a: "haversine_a exact_arith lat1 lon1 lat2 lon2 = (1 - cos (q - p)) / 2 + cos p * cos q * s"
    unfolding haversine_a_form p_def [symmetric] q_def [symmetric] s_def [symmetric] h ..
  have cc: "0 \<le> cos p * cos q" using c1 c2 by (rule mult_nonneg_nonneg)
  have "cos p * cos q * s \<le> cos p * cos q * 1"
    using s01(2) cc by (rule mult_left_mono)
  moreover have "cos p * cos q = (cos (q - p) + cos (q + p)) / 2"
    by (simp add: cos_diff cos_add)
  moreover have "cos (q + p) \<le> 1" by (rule cos_le_one)
  ultimately show ?thesis unfolding a by argo
qed

lemma haversine_a_pos:
  assumes "- 90 \<le> lat1" "lat1 \<le> 90" "- 90 \<le> lat2" "lat2 \<le> 90" "lat1 \<noteq> lat2"
  shows "0 < haversine_a exact_arith lat1 lon1 lat2 lon2"
proof -
  define p where "p = lat1 * pi / 180"
  define q where "q = lat2 * pi / 180"
  have r: "- (pi / 2) \<le> p" "p \<le> pi / 2" "- (pi / 2) \<le> q" "q \<le> pi / 2"
    unfolding p_def q_def using deg_range [OF assms(1,2)] deg_range [OF assms(3,4)] by blast+
  have "- pi < (q - p) / 2 \<and> (q - p) / 2 < pi" using r pi_gt_zero by argo
  moreover have "(q - p) / 2 \<noteq> 0" unfolding p_def q_def using assms(5) by simp
  ultimately have "sin ((q - p) / 2) \<noteq> 0" using sin_eq_0_pi [of "(q - p) / 2"] by blast
  then have s: "0 < sin ((q - p) / 2) * sin ((q - p) / 2)" by (auto simp: zero_less_mult_iff)
  have c1: "0 \<le> cos p" using r by (intro cos_ge_zero)
  have c2: "0 \<le> cos q" using r by (intro cos_ge_zero)
  have "0 \<le> cos p * cos q *
       (sin ((lon2 - lon1) * pi / 180 / 2) * sin ((lon2 - lon1) * pi / 180 / 2))"
    by (intro mult_nonneg_nonneg c1 c2 sin_sq_bounds)
  with s show ?thesis unfolding haversine_a_form p_def [symmetric] q_def [symmetric] by linarith
qed

lemma atan2_arcsin:
  assumes "0 \<le> a" "a \<le> 1"
  shows "atan2 (sqrt a) (sqrt (1 - a)) = arcsin (sqrt a)"
proof (cases "a = 1")
  case True
  then show ?thesis by (simp add: atan2_def)
next
  case False
  with assms have lt: "a < 1" by simp
  then have x: "0 < sqrt (1 - a)" by simp
  have y: "- 1 < sqrt a" "sqrt a < 1"
    using assms lt by (simp_all add: real_sqrt_lt_1_iff less_le_trans [of "-1" 0])
  have "(sqrt a)\<^sup>2 = a" using assms by simp
  then have "arcsin (sqrt a) = arctan (sqrt a / sqrt (1 - a))"
    using arcsin_arctan [OF y] by simp
  then show ?thesis using x by (simp add: atan2_def)
qed

lemma haversine_km_a:
  "haversine_km lat1 lon1 lat2 lon2
     = 2 * 6371 * arcsin (sqrt (haversine_a exact_arith lat1 lon1 lat2 lon2))"
  by (simp add: haversine_km_def haversine_a_exact Let_def power2_eq_square mult.assoc)

lemma calculateDistance_haversine:
  assumes "valid_coordinates lat1 lon1" "valid_coordinates lat2 lon2"
  shows "calculateDistance exact_arith lat1 lon1 lat2 lon2 = Some (haversine_km lat1 lon1 lat2 lon2)"
proof -
  define a where "a = haversine_a exact_arith lat1 lon1 lat2 lon2"
  have a0: "0 \<le> a" unfolding a_def
    using assms by (intro haversine_a_nonneg) (simp_all add: valid_coordinates_def)
  have a1: "a \<le> 1" unfolding a_def
    using assms by (intro haversine_a_le_1) (simp_all add: valid_coordinates_def)
  have "calculateDistance exact_arith lat1 lon1 lat2 lon2
          = Some (6371 * (2 * atan2 (sqrt a) (sqrt (1 - a))))"
    using a0 a1 by (simp add: calculateDistance_exact a_def [symmetric])
  also have "\<dots> = Some (2 * 6371 * arcsin (sqrt a))"
    by (simp add: atan2_arcsin [OF a0 a1])
  finally show ?thesis by (simp add: haversine_km_a a_def)
qed

lemma haversine_km_nonneg:
  assumes "valid_coordinates lat1 lon1" "valid_coordinates lat2 lon2"
  shows "0 \<le> haversine_km lat1 lon1 lat2 lon2"
proof -
  define a where "a = haversine_a exact_arith lat1 lon1 lat2 lon2"
  have a0: "0 \<le> a" unfolding a_def
    using assms by (intro haversine_a_nonneg) (simp_all add: valid_coordinates_def)
  have a1: "a \<le> 1" unfolding a_def
    using assms by (intro haversine_a_le_1) (simp_all add: valid_coordinates_def)
  have "0 \<le> arcsin (sqrt a)" using a0 a1 by (intro arcsin_nonneg) simp
  then show ?thesis by (simp add: haversine_km_a a_def [symmetric])
qed

lemma haversine_km_pos:
  assumes "valid_coordinates lat1 lon1" "valid_coordinates lat2 lon2" "lat1 \<noteq> lat2"
  shows "0 < haversine_km lat1 lon1 lat2 lon2"
proof -
  define a where "a = haversine_a exact_arith lat1 lon1 lat2 lon2"
  have a0: "0 < a" unfolding a_def
    using assms by (intro haversine_a_pos) (simp_all add: valid_coordinates_def)
  have a1: "a \<le> 1" unfolding a_def
    using assms by (intro haversine_a_le_1) (simp_all add: valid_coordinates_def)
  have "arcsin 0 < arcsin (sqrt a)" using a0 a1 by (intro arcsin_less_arcsin) simp_all
  then show ?thesis by (simp add: haversine_km_a a_def [symmetric])
qed

text \<open>
  When rounding leaves \<open>1 - a\<close> negative, the distance is \<open>NaN\<close>, whatever the
  order of the two points.
\<close>

lemma calculateDistance_NaN:
  "fsub F 1 (haversine_a F lat1 lon1 lat2 lon2) < 0 \<Longrightarrow>
     calculateDistance F lat1 lon1 lat2 lon2 = None"
  by (simp add: calculateDistance_def math_sqrt_def Let_def)

text \<open>
  In exact arithmetic the function is symmetric and is 0 from a point to itself.
\<close>

lemma calculateDistance_exact_symmetric:
  assumes "valid_coordinates lat1 lon1" and "valid_coordinates lat2 lon2"
  shows "(\<exists>d. calculateDistance exact_arith lat1 lon1 lat2 lon2 = Some d
              \<and> calculateDistance exact_arith lat2 lon2 lat1 lon1 = Some d)
         \<and> calculateDistance exact_arith lat1 lon1 lat1 lon1 = Some 0"
  using calculateDistance_haversine [OF assms] calculateDistance_sym [of lat2 lon2 lat1 lon1]
  by (simp add: calculateDistance_self)

subsection \<open>Signal quality\<close>

lemma quality_score_spec:
  "quality_score r = spec_quality_score (ping r) (jitter r) (packetLoss r)"
  by (simp add: quality_score_def spec_quality_score_def score_after_ping_def
      score_after_jitter_def score_after_loss_def ping_penalty_def jitter_penalty_def
      loss_penalty_def)

lemma quality_score_good: "quality_score sample_good = 100"
  by (simp add: quality_score_def sample_good_def score_after_ping_def
      score_after_jitter_def score_after_loss_def)

lemma quality_score_bad: "quality_score sample_bad = 30"
  by (simp add: quality_score_def sample_bad_def score_after_ping_def
      score_after_jitter_def score_after_loss_def)

text \<open>
  Claim C8. The score computed by \<open>estimateSignalQuality\<close> is 100 minus the ping
  penalty (30 above 100 ms, else 15 above 50 ms), minus the jitter penalty (20 above
  10 ms, else 10 above 5 ms), minus the loss penalty (20 above 0.1, else 10 above
  0.05); the label returned is the one of that score (Excellent from 90, Good from 80,
  Fair from 70, Poor from 60, Bad below). Ping 20, jitter 2, loss 0.01 scores 100 and is
  labelled Excellent; ping 150, jitter 15, loss 0.2 scores 30 and is labelled Bad.
\<close>

theorem estimateSignalQuality_spec:
  "quality_score r = spec_quality_score (ping r) (jitter r) (packetLoss r)
   \<and> estimateSignalQuality r =
       (let s = spec_quality_score (ping r) (jitter r) (packetLoss r) in
        if s \<ge> 90 then ''Excellent'' else if s \<ge> 80 then ''Good''
        else if s \<ge> 70 then ''Fair'' else if s \<ge> 60 then ''Poor'' else ''Bad'')
   \<and> quality_score sample_good = 100
   \<and> estimateSignalQuality sample_good = ''Excellent''
   \<and> quality_score sample_bad = 30
   \<and> estimateSignalQuality sample_bad = ''Bad''"
  by (simp add: estimateSignalQuality_def score_label_def quality_score_spec [symmetric]
      quality_score_good quality_score_bad Let_def)

subsection \<open>Optimal server\<close>

lemma closest_step:
  "closest F c (x # xs) best =
     (if js_less_than_min
           (calculateDistance F (fst c) (snd c) (lat (coordinates x)) (lon (coordinates x))) best
         \<and> status x = ''online''
      then closest F c xs
             (Some (x, the (calculateDistance F (fst c) (snd c)
                              (lat (coordinates x)) (lon (coordinates x)))))
      else closest F c xs best)"
  by (simp add: Let_def)

lemma closest_origin:
  "closest F c ss best = Some (s, d) \<Longrightarrow>
     best = Some (s, d)
     \<or> (s \<in> set ss \<and> status s = ''online''
        \<and> calculateDistance F (fst c) (snd c) (lat (coordinates s)) (lon (coordinates s)) = Some d)"
proof (induction ss arbitrary: best)
  case Nil
  then show ?case by simp
next
  case (Cons x xs)
  let ?dx = "calculateDistance F (fst c) (snd c) (lat (coordinates x)) (lon (coordinates x))"
  show ?case
  proof (cases "js_less_than_min ?dx best \<and> status x = ''online''")
    case True
    then obtain dx where dx: "?dx = Some dx"
      by (auto simp: js_less_than_min_def split: option.splits)
    from Cons.prems True have "closest F c xs (Some (x, dx)) = Some (s, d)"
      by (simp add: closest_step dx del: closest.simps)
    from Cons.IH [OF this] True dx show ?thesis by auto
  next
    case False
    with Cons.prems have "closest F c xs best = Some (s, d)"
      by (auto simp: Let_def)
    from Cons.IH [OF this] show ?thesis by auto
  qed
qed

lemma closest_le_best:
  "closest F c ss best = Some (s, d) \<Longrightarrow> best = Some (s', d') \<Longrightarrow> d \<le> d'"
proof (induction ss arbitrary: best s' d')
  case Nil
  then show ?case by simp
next
  case (Cons x xs)
  let ?dx = "calculateDistance F (fst c) (snd c) (lat (coordinates x)) (lon (coordinates x))"
  show ?case
  proof (cases "js_less_than_min ?dx best \<and> status x = ''online''")
    case True
    then obtain dx where dx: "?dx = Some dx" and lt: "dx < d'"
      using Cons.prems(2) by (auto simp: js_less_than_min_def split: option.splits)
    from Cons.prems True have "closest F c xs (Some (x, dx)) = Some (s, d)"
      by (simp add: closest_step dx del: closest.simps)
    from Cons.IH [OF this refl] lt show ?thesis by simp
  next
    case False
    with Cons.prems have "closest F c xs best = Some (s, d)"
      by (auto simp: Let_def)
    from Cons.IH [OF this Cons.prems(2)] show ?thesis .
  qed
qed

lemma closest_minimal:
  "closest F c ss best = Some (s, d) \<Longrightarrow> s' \<in> set ss \<Longrightarrow> status s' = ''online'' \<Longrightarrow>
   calculateDistance F (fst c) (snd c) (lat (coordinates s')) (lon (coordinates s')) = Some d' \<Longrightarrow>
     d \<le> d'"
proof (induction ss arbitrary: best)
  case Nil
  then show ?case by simp
next
  case (Cons x xs)
  let ?dx = "calculateDistance F (fst c) (snd c) (lat (coordinates x)) (lon (coordinates x))"
  show ?case
  proof (cases "js_less_than_min ?dx best \<and> status x = ''online''")
    case True
    then obtain dx where dx: "?dx = Some dx"
      by (auto simp: js_less_than_min_def split: option.splits)
    from Cons.prems(1) True have run: "closest F c xs (Some (x, dx)) = Some (s, d)"
      by (simp add: closest_step dx del: closest.simps)
    show ?thesis
    proof (cases "s' = x")
      case True
      with dx Cons.prems(4) have "d' = dx" by simp
      with closest_le_best [OF run refl] show ?thesis by simp
    next
      case False
      with Cons.prems(2) have "s' \<in> set xs" by simp
      from Cons.IH [OF run this Cons.prems(3,4)] show ?thesis .
    qed
  next
    case False
    with Cons.prems(1) have run: "closest F c xs best = Some (s, d)"
      by (auto simp: Let_def)
    show ?thesis
    proof (cases "s' = x")
      case True
      with False Cons.prems(3,4) have "\<not> js_less_than_min (Some d') best" by simp
      then obtain b db where b: "best = Some (b, db)" and "db \<le> d'"
        by (auto simp: js_less_than_min_def split: option.splits)
      with closest_le_best [OF run b] show ?thesis by simp
    next
      case False
      with Cons.prems(2) have "s' \<in> set xs" by simp
      from Cons.IH [OF run this Cons.prems(3,4)] show ?thesis .
    qed
  qed
qed

lemma closest_keeps_Some: "best \<noteq> None \<Longrightarrow> closest F c ss best \<noteq> None"
  by (induction ss arbitrary: best) (auto simp: Let_def)

lemma closest_found:
  "s \<in> set ss \<Longrightarrow> status s = ''online'' \<Longrightarrow>
   calculateDistance F (fst c) (snd c) (lat (coordinates s)) (lon (coordinates s)) = Some d \<Longrightarrow>
     closest F c ss best \<noteq> None"
proof (induction ss arbitrary: best)
  case Nil
  then show ?case by simp
next
  case (Cons x xs)
  show ?case
  proof (cases "best")
    case (Some b)
    then show ?thesis using closest_keeps_Some [of best F c "x # xs"] by simp
  next
    case None
    show ?thesis
    proof (cases "s = x")
      case True
      with Cons.prems None have "closest F c (x # xs) best = closest F c xs (Some (x, d))"
        by (simp add: js_less_than_min_def)
      then show ?thesis using closest_keeps_Some [of "Some (x, d)" F c xs] by simp
    next
      case False
      with Cons.prems have "s \<in> set xs" by simp
      from Cons.IH [OF this Cons.prems(2,3)] show ?thesis
        using closest_keeps_Some [of _ F c xs] by (auto simp: Let_def)
    qed
  qed
qed

text \<open>
  Claim C7. When the client's location is unknown (\<open>geoip.lookup\<close> answers
  \<open>null\<close>, or an object without \<open>ll\<close>), the handler answers the first registry
  entry. When the location \<open>(la, lo)\<close> is known and \<open>calculateDistance\<close> from
  it to some online entry is a number, the handler answers an online entry \<open>s\<close>
  with \<open>d\<close>, the value of \<open>calculateDistance\<close> from \<open>(la, lo)\<close> to the
  coordinates of \<open>s\<close>; no online entry has a smaller value of
  \<open>calculateDistance\<close>; and the latency of the answer is
  \<open>floor (d * 0.1) + 10\<close>, evaluated in the arithmetic of the program. The
  value of \<open>calculateDistance\<close> is the haversine distance: in exact arithmetic
  it is, for valid coordinates, the number that the standard haversine formula with
  radius 6371 km gives.
\<close>

theorem optimal_server_selection:
  "((g = None \<or> (\<exists>g'. g = Some g' \<and> ll g' = None)) \<longrightarrow>
      optimal_server F (s0 # rest) g = Primary s0)
   \<and> ((\<exists>s \<in> set servers. status s = ''online''
          \<and> calculateDistance F la lo (lat (coordinates s)) (lon (coordinates s)) \<noteq> None) \<longrightarrow>
      (\<exists>s d. optimal_server F servers (Some \<lparr>ll = Some (la, lo)\<rparr>)
                = Closest s d (\<lfloor>fl F (d * fl F 0.1)\<rfloor> + 10)
         \<and> s \<in> set servers \<and> status s = ''online''
         \<and> calculateDistance F la lo (lat (coordinates s)) (lon (coordinates s)) = Some d
         \<and> (\<forall>s' \<in> set servers. \<forall>d'. status s' = ''online''
               \<and> calculateDistance F la lo (lat (coordinates s')) (lon (coordinates s')) = Some d'
               \<longrightarrow> d \<le> d')))
   \<and> (valid_coordinates la lo \<and> valid_coordinates la' lo' \<longrightarrow>
        calculateDistance exact_arith la lo la' lo' = Some (haversine_km la lo la' lo'))"
proof (intro conjI impI)
  assume "g = None \<or> (\<exists>g'. g = Some g' \<and> ll g' = None)"
  then show "optimal_server F (s0 # rest) g = Primary s0"
    by (auto simp: optimal_server_def)
next
  assume "\<exists>s \<in> set servers. status s = ''online''
          \<and> calculateDistance F la lo (lat (coordinates s)) (lon (coordinates s)) \<noteq> None"
  then obtain s0 d0 where "s0 \<in> set servers" "status s0 = ''online''"
    "calculateDistance F (fst (la, lo)) (snd (la, lo)) (lat (coordinates s0)) (lon (coordinates s0)) = Some d0"
    by auto
  from closest_found [OF this, of None]
  obtain s d where run: "closest F (la, lo) servers None = Some (s, d)"
    by (cases "closest F (la, lo) servers None") auto
  from closest_origin [OF run]
  have o: "s \<in> set servers" "status s = ''online''"
    "calculateDistance F la lo (lat (coordinates s)) (lon (coordinates s)) = Some d" by auto
  have m: "\<forall>s' \<in> set servers. \<forall>d'. status s' = ''online''
               \<and> calculateDistance F la lo (lat (coordinates s')) (lon (coordinates s')) = Some d'
               \<longrightarrow> d \<le> d'"
    using closest_minimal [OF run] by auto
  have "optimal_server F servers (Some \<lparr>ll = Some (la, lo)\<rparr>)
          = Closest s d (\<lfloor>fl F (d * fl F 0.1)\<rfloor> + 10)"
    by (simp add: optimal_server_def run fmul_def)
  with o m show "\<exists>s d. optimal_server F servers (Some \<lparr>ll = Some (la, lo)\<rparr>)
                = Closest s d (\<lfloor>fl F (d * fl F 0.1)\<rfloor> + 10)
         \<and> s \<in> set servers \<and> status s = ''online''
         \<and> calculateDistance F la lo (lat (coordinates s)) (lon (coordinates s)) = Some d
         \<and> (\<forall>s' \<in> set servers. \<forall>d'. status s' = ''online''
               \<and> calculateDistance F la lo (lat (coordinates s')) (lon (coordinates s')) = Some d'
               \<longrightarrow> d \<le> d')"
    by blast
next
  assume "valid_coordinates la lo \<and> valid_coordinates la' lo'"
  then show "calculateDistance exact_arith la lo la' lo' = Some (haversine_km la lo la' lo')"
    by (simp add: calculateDistance_haversine)
qed

text \<open>
  A client in London, in exact arithmetic: the handler answers the second registry
  entry, at distance 0 and latency 10.
\<close>

lemma london_distances:
  "\<exists>d. calculateDistance exact_arith 51.5074 (- 0.1278) 40.7128 (- 74.0060) = Some d \<and> 0 < d"
  "calculateDistance exact_arith 51.5074 (- 0.1278) 51.5074 (- 0.1278) = Some 0"
  "\<exists>d. calculateDistance exact_arith 51.5074 (- 0.1278) 1.3521 103.8198 = Some d \<and> 0 \<le> d"
  "\<exists>d. calculateDistance exact_arith 51.5074 (- 0.1278) (- 33.8688) 151.2093 = Some d \<and> 0 \<le> d"
proof -
  have v: "valid_coordinates 51.5074 (- 0.1278)" "valid_coordinates 40.7128 (- 74.0060)"
    "valid_coordinates 1.3521 103.8198" "valid_coordinates (- 33.8688) 151.2093"
    by (simp_all add: valid_coordinates_def)
  have ne: "(51.5074 :: real) \<noteq> 40.7128" by simp
  show "\<exists>d. calculateDistance exact_arith 51.5074 (- 0.1278) 40.7128 (- 74.0060) = Some d \<and> 0 < d"
    using calculateDistance_haversine [OF v(1) v(2)] haversine_km_pos [OF v(1) v(2) ne] by blast
  show "calculateDistance exact_arith 51.5074 (- 0.1278) 51.5074 (- 0.1278) = Some 0"
    by (rule calculateDistance_self)
  show "\<exists>d. calculateDistance exact_arith 51.5074 (- 0.1278) 1.3521 103.8198 = Some d \<and> 0 \<le> d"
    using calculateDistance_haversine [OF v(1) v(3)] haversine_km_nonneg [OF v(1) v(3)] by blast
  show "\<exists>d. calculateDistance exact_arith 51.5074 (- 0.1278) (- 33.8688) 151.2093 = Some d \<and> 0 \<le> d"
    using calculateDistance_haversine [OF v(1) v(4)] haversine_km_nonneg [OF v(1) v(4)] by blast
qed

lemma optimal_server_london:
  "optimal_server exact_arith (testServers exact_arith 3001)
     (Some \<lparr>ll = Some (51.5074, - 0.1278)\<rparr>)
     = Closest (testServers exact_arith 3001 ! 1) 0 10"
proof -
  obtain d1 where d1: "calculateDistance exact_arith 51.5074 (- 0.1278) 40.7128 (- 74.0060) = Some d1"
    "0 < d1" using london_distances(1) by blast
  obtain d3 where d3: "calculateDistance exact_arith 51.5074 (- 0.1278) 1.3521 103.8198 = Some d3"
    "0 \<le> d3" using london_distances(3) by blast
  obtain d4 where d4: "calculateDistance exact_arith 51.5074 (- 0.1278) (- 33.8688) 151.2093 = Some d4"
    "0 \<le> d4" using london_distances(4) by blast
  have "closest exact_arith (51.5074, - 0.1278) (testServers exact_arith 3001) None
          = Some (testServers exact_arith 3001 ! 1, 0)"
    using d1 d3 d4 london_distances(2)
    by (simp add: testServers_def exact_ops js_less_than_min_def)
  then show ?thesis by (simp add: optimal_server_def exact_ops)
qed

theorem optimal_server_selection_witness:
  "optimal_server exact_arith (testServers exact_arith 3001) None
     = Primary (hd (testServers exact_arith 3001))
   \<and> (\<exists>s \<in> set (testServers exact_arith 3001). status s = ''online''
          \<and> calculateDistance exact_arith 51.5074 (- 0.1278)
                (lat (coordinates s)) (lon (coordinates s)) \<noteq> None)
   \<and> (\<exists>s d. optimal_server exact_arith (testServers exact_arith 3001)
                 (Some \<lparr>ll = Some (51.5074, - 0.1278)\<rparr>)
               = Closest s d (\<lfloor>fl exact_arith (d * fl exact_arith 0.1)\<rfloor> + 10)
          \<and> s \<in> set (testServers exact_arith 3001) \<and> status s = ''online''
          \<and> calculateDistance exact_arith 51.5074 (- 0.1278)
                (lat (coordinates s)) (lon (coordinates s)) = Some d
          \<and> (\<forall>s' \<in> set (testServers exact_arith 3001). \<forall>d'. status s' = ''online''
                \<and> calculateDistance exact_arith 51.5074 (- 0.1278)
                      (lat (coordinates s')) (lon (coordinates s')) = Some d'
                \<longrightarrow> d \<le> d')
          \<and> name s = ''Europe Server'' \<and> d = 0
          \<and> \<lfloor>fl exact_arith (d * fl exact_arith 0.1)\<rfloor> + 10 = 10)
   \<and> valid_coordinates 51.5074 (- 0.1278) \<and> valid_coordinates 40.7128 (- 74.0060)
   \<and> calculateDistance exact_arith 51.5074 (- 0.1278) 40.7128 (- 74.0060)
       = Some (haversine_km 51.5074 (- 0.1278) 40.7128 (- 74.0060))"
proof -
  let ?S = "testServers exact_arith 3001"
  have l: "?S = hd ?S # tl ?S" by (simp add: testServers_def)
  have v: "valid_coordinates 51.5074 (- 0.1278) \<and> valid_coordinates 40.7128 (- 74.0060)"
    by (simp add: valid_coordinates_def)
  have h: "\<exists>s \<in> set ?S. status s = ''online''
             \<and> calculateDistance exact_arith 51.5074 (- 0.1278)
                  (lat (coordinates s)) (lon (coordinates s)) \<noteq> None"
    using london_distances(2) by (simp add: testServers_def exact_ops)
  note t = optimal_server_selection [where g = None and ?s0.0 = "hd ?S" and rest = "tl ?S"
      and F = exact_arith and servers = ?S and la = "51.5074" and lo = "- 0.1278"
      and la' = "40.7128" and lo' = "- 74.0060"]
  have p: "optimal_server exact_arith ?S None = Primary (hd ?S)"
    using t l by simp
  have n: "calculateDistance exact_arith 51.5074 (- 0.1278) 40.7128 (- 74.0060)
       = Some (haversine_km 51.5074 (- 0.1278) 40.7128 (- 74.0060))"
    using t v by blast
  from t h obtain s d where sd:
    "optimal_server exact_arith ?S (Some \<lparr>ll = Some (51.5074, - 0.1278)\<rparr>)
       = Closest s d (\<lfloor>fl exact_arith (d * fl exact_arith 0.1)\<rfloor> + 10)"
    "s \<in> set ?S" "status s = ''online''"
    "calculateDistance exact_arith 51.5074 (- 0.1278)
       (lat (coordinates s)) (lon (coordinates s)) = Some d"
    "\<forall>s' \<in> set ?S. \<forall>d'. status s' = ''online''
        \<and> calculateDistance exact_arith 51.5074 (- 0.1278)
              (lat (coordinates s')) (lon (coordinates s')) = Some d'
        \<longrightarrow> d \<le> d'"
    by blast
  have "Closest s d (\<lfloor>fl exact_arith (d * fl exact_arith 0.1)\<rfloor> + 10) = Closest (?S ! 1) 0 10"
    using sd(1) [symmetric] optimal_server_london by (rule trans)
  then have e: "s = ?S ! 1" "d = 0" by simp_all
  have "name s = ''Europe Server''" unfolding e by (simp add: testServers_def)
  moreover have "\<lfloor>fl exact_arith (d * fl exact_arith 0.1)\<rfloor> + 10 = 10"
    unfolding e by (simp add: exact_ops)
  ultimately show ?thesis using p h n v sd e(2) by blast
qed

subsection \<open>Running averages\<close>

lemma mean_snoc:
  "xs \<noteq> [] \<Longrightarrow> (mean xs * (real (length xs + 1) - 1) + x) / real (length xs + 1) = mean (xs @ [x])"
  by (simp add: mean_def)

lemma mean_single: "mean [x] = x"
  by (simp add: mean_def)

lemma update_stats_fresh:
  "update_stats (fresh_stats t0) m t =
     \<lparr>totalTests = 1, avgPing = ping m, avgDownload = download m, avgUpload = upload m,
      lastUpdated = t\<rparr>"
  by (simp add: update_stats_def fresh_stats_def bump_totalTests_def)

lemma update_stats_inv:
  assumes "stats_inv (Some s) ms"
  shows "stats_inv (Some (update_stats s m t)) (ms @ [m])"
proof -
  from assms have ne: "ms \<noteq> []" and n: "totalTests s = length ms"
    and p: "avgPing s = mean (map ping ms)"
    and d: "avgDownload s = mean (map download ms)"
    and u: "avgUpload s = mean (map upload ms)" by simp_all
  have "totalTests (update_stats s m t) = length (ms @ [m])"
    by (simp add: update_stats_def bump_totalTests_def n)
  moreover have "avgPing (update_stats s m t) = mean (map ping (ms @ [m]))"
    using mean_snoc [of "map ping ms" "ping m"] ne
    by (simp add: update_stats_def bump_totalTests_def n p)
  moreover have "avgDownload (update_stats s m t) = mean (map download (ms @ [m]))"
    using mean_snoc [of "map download ms" "download m"] ne
    by (simp add: update_stats_def bump_totalTests_def n d)
  moreover have "avgUpload (update_stats s m t) = mean (map upload (ms @ [m]))"
    using mean_snoc [of "map upload ms" "upload m"] ne
    by (simp add: update_stats_def bump_totalTests_def n u)
  ultimately show ?thesis by simp
qed

lemma save_results_other:
  "\<not> references sid req \<Longrightarrow> sid \<noteq> 0 \<Longrightarrow>
     serverStats (snd (save_results req st)) sid = serverStats st sid"
  by (auto simp: save_results_def references_def Let_def split: option.splits)

lemma save_results_inv:
  assumes "stats_inv (serverStats st sid) ms" and "sid \<noteq> 0"
    and "references sid req \<longrightarrow> results (body req) \<noteq> None"
  shows "stats_inv (serverStats (snd (save_results req st)) sid) (ms @ samples sid [req])"
proof (cases "references sid req")
  case False
  then show ?thesis using assms save_results_other [OF False assms(2)]
    by (simp add: samples_def)
next
  case True
  with assms(3) obtain m where m: "results (body req) = Some m" by auto
  from True obtain srv where srv: "server (body req) = Some srv" "ref_id srv = sid"
    by (auto simp: references_def split: option.splits)
  have sm: "samples sid [req] = [m]" using True m by (simp add: samples_def)
  show ?thesis
  proof (cases "serverStats st sid")
    case None
    with assms(1) have "ms = []" by simp
    moreover have "serverStats (snd (save_results req st)) sid
                     = Some (update_stats (fresh_stats (now req)) m (now req))"
      using None srv m assms(2) by (simp add: save_results_def Let_def)
    ultimately show ?thesis by (simp add: sm update_stats_fresh mean_single)
  next
    case (Some s)
    have "serverStats (snd (save_results req st)) sid = Some (update_stats s m (now req))"
      using Some srv m assms(2) by (simp add: save_results_def Let_def)
    then show ?thesis using update_stats_inv [of s ms m "now req"] assms(1) Some
      by (simp add: sm)
  qed
qed

lemma samples_Cons: "samples sid (req # reqs) = samples sid [req] @ samples sid reqs"
  by (simp add: samples_def)

lemma save_all_inv:
  "stats_inv (serverStats st sid) ms \<Longrightarrow> sid \<noteq> 0 \<Longrightarrow>
   (\<forall>req \<in> set reqs. references sid req \<longrightarrow> results (body req) \<noteq> None) \<Longrightarrow>
     stats_inv (serverStats (save_all reqs st) sid) (ms @ samples sid reqs)"
proof (induction reqs arbitrary: st ms)
  case Nil
  then show ?case by (simp add: samples_def)
next
  case (Cons req reqs)
  have "stats_inv (serverStats (snd (save_results req st)) sid) (ms @ samples sid [req])"
    using Cons.prems by (intro save_results_inv) simp_all
  from Cons.IH [OF this Cons.prems(2)] Cons.prems(3)
  show ?case by (simp add: samples_Cons [of sid req reqs])
qed

text \<open>
  As long as no request that names the server is rejected, the statistics are the
  batch means. Take a server id that is truthy (not 0) and a history of save
  requests, starting from the empty store, in which every request that references
  the server carries its measurements, and let \<open>N\<close> be their number. If
  \<open>N = 0\<close> the server has no statistics; otherwise \<open>totalTests = N\<close> and
  \<open>avgPing\<close>, \<open>avgDownload\<close>, \<open>avgUpload\<close> are the arithmetic means of the
  \<open>N\<close> submitted values, in exact arithmetic.
\<close>

lemma stats_are_batch_means:
  assumes "sid \<noteq> 0"
    and "\<forall>req \<in> set reqs. references sid req \<longrightarrow> results (body req) \<noteq> None"
  shows "length (samples sid reqs) = length (filter (references sid) reqs)
         \<and> (case serverStats (save_all reqs empty_store) sid of
               None \<Rightarrow> samples sid reqs = []
             | Some s \<Rightarrow>
                 samples sid reqs \<noteq> []
                 \<and> totalTests s = length (samples sid reqs)
                 \<and> avgPing s = mean (map ping (samples sid reqs))
                 \<and> avgDownload s = mean (map download (samples sid reqs))
                 \<and> avgUpload s = mean (map upload (samples sid reqs)))"
proof -
  have "stats_inv (serverStats empty_store sid) []" by (simp add: empty_store_def)
  from save_all_inv [OF this assms]
  have "stats_inv (serverStats (save_all reqs empty_store) sid) (samples sid reqs)" by simp
  then have 2: "(case serverStats (save_all reqs empty_store) sid of
               None \<Rightarrow> samples sid reqs = []
             | Some s \<Rightarrow>
                 samples sid reqs \<noteq> []
                 \<and> totalTests s = length (samples sid reqs)
                 \<and> avgPing s = mean (map ping (samples sid reqs))
                 \<and> avgDownload s = mean (map download (samples sid reqs))
                 \<and> avgUpload s = mean (map upload (samples sid reqs)))"
    by (cases "serverStats (save_all reqs empty_store) sid") simp_all
  have 1: "length (samples sid reqs) = length (filter (references sid) reqs)"
    using assms(2) by (induction reqs) (auto simp: samples_def)
  from 1 2 show ?thesis by blast
qed

lemma stats_are_batch_means_example:
  "\<exists>s. serverStats (save_all sample_history empty_store) 1 = Some s
       \<and> totalTests s = 2 \<and> avgPing s = 15 \<and> avgDownload s = 60 \<and> avgUpload s = 30"
proof -
  have h: "\<forall>req \<in> set sample_history. references 1 req \<longrightarrow> results (body req) \<noteq> None"
    by (simp add: sample_history_def sample_request_def)
  have s: "samples 1 sample_history
             = [the (results (body (sample_request ''a'' 1 10))),
                the (results (body (sample_request ''c'' 1 20)))]"
    by (simp add: samples_def sample_history_def sample_request_def references_def)
  have n: "(1::nat) \<noteq> 0" by simp
  from stats_are_batch_means [OF n h]
  have c: "case serverStats (save_all sample_history empty_store) 1 of
             None \<Rightarrow> samples 1 sample_history = []
           | Some s \<Rightarrow>
               samples 1 sample_history \<noteq> []
               \<and> totalTests s = length (samples 1 sample_history)
               \<and> avgPing s = mean (map ping (samples 1 sample_history))
               \<and> avgDownload s = mean (map download (samples 1 sample_history))
               \<and> avgUpload s = mean (map upload (samples 1 sample_history))"
    by (rule conjunct2)
  show ?thesis
  proof (cases "serverStats (save_all sample_history empty_store) 1")
    case None
    with c have "samples 1 sample_history = []" by (simp only: option.case)
    with s show ?thesis by simp
  next
    case (Some st)
    with c have "totalTests st = length (samples 1 sample_history)
               \<and> avgPing st = mean (map ping (samples 1 sample_history))
               \<and> avgDownload st = mean (map download (samples 1 sample_history))
               \<and> avgUpload st = mean (map upload (samples 1 sample_history))"
      by (simp only: option.case)
    then have "totalTests st = 2 \<and> avgPing st = 15 \<and> avgDownload st = 60 \<and> avgUpload st = 30"
      unfolding s by (simp add: mean_def sample_request_def)
    with Some show ?thesis by blast
  qed
qed

text \<open>
  Claim C5, at a failing input. Three requests for server 1: a result with ping 10,
  a body without \<open>results\<close>, a result with ping 40. The first and the third are
  accepted, the second is answered with status 500. After the second acceptance
  \<open>totalTests\<close> is 3 and \<open>avgPing\<close> is 20, where the number of accepted results
  is 2 and the mean of their pings is 25: the rejected request has incremented
  \<open>totalTests\<close> on the stored object before the read of \<open>results.results.ping\<close>
  threw.
\<close>

theorem stats_count_rejected_request:
  "fst (save_results (sample_request ''a'' 1 10) empty_store) = Saved ''a''
   \<and> fst (save_results sample_without_results
            (save_all [sample_request ''a'' 1 10] empty_store)) = Save_failed_500
   \<and> fst (save_results (sample_request ''c'' 1 40)
            (save_all [sample_request ''a'' 1 10, sample_without_results] empty_store))
       = Saved ''c''
   \<and> length (samples 1 rejected_between) = 2
   \<and> mean (map ping (samples 1 rejected_between)) = 25
   \<and> (\<exists>s. serverStats (save_all rejected_between empty_store) 1 = Some s
          \<and> totalTests s = 3 \<and> avgPing s = 20)"
  by (simp add: rejected_between_def sample_request_def sample_without_results_def
      save_results_def empty_store_def Let_def update_stats_def bump_totalTests_def
      fresh_stats_def samples_def references_def mean_def)

subsection \<open>Save, then get\<close>

lemma testResults_save_results:
  "testResults (snd (save_results req st)) =
     (testResults st)(uuid req \<mapsto> (body req)\<lparr>result_id := Some (uuid req),
        timestamp := Some (now req), clientIp := remote req\<rparr>)"
  by (simp add: save_results_def Let_def split: option.splits)

lemma dom_testResults_save_all:
  "dom (testResults (save_all reqs st)) = dom (testResults st) \<union> uuid ` set reqs"
  by (induction reqs arbitrary: st) (auto simp: testResults_save_results)

lemma save_results_accepted: "accepted req \<Longrightarrow> fst (save_results req st) = Saved (uuid req)"
  by (auto simp: accepted_def save_results_def Let_def split: option.splits)

text \<open>
  A body that names server 1 and carries no \<open>results\<close> is answered with status
  500, without an identifier.
\<close>

theorem save_results_counterexample:
  "fst (save_results sample_without_results empty_store) = Save_failed_500"
  by (simp add: save_results_def sample_without_results_def empty_store_def Let_def)

text \<open>
  Claim C10, as amended. A request is accepted when its body names no server, or a
  server with id 0, or carries \<open>results\<close>. For every accepted request, whatever
  \<open>id\<close>, \<open>timestamp\<close> and \<open>clientIp\<close> its body carries, the handler answers the
  generated identifier, and a get with that identifier right afterwards finds the body
  with \<open>id\<close>, \<open>timestamp\<close> and \<open>clientIp\<close> replaced by the generated
  identifier, the server's time and the client's address. A request that is not
  accepted is answered with status 500 and no identifier. After any history of save
  requests from the empty store, a get with an identifier that no request of the
  history generated answers not-found.
\<close>

theorem save_then_get:
  "(accepted req \<longrightarrow>
      fst (save_results req st) = Saved (uuid req)
      \<and> get_results (uuid req) (snd (save_results req st))
          = Found ((body req)\<lparr>result_id := Some (uuid req), timestamp := Some (now req),
                              clientIp := remote req\<rparr>))
   \<and> (\<not> accepted req \<longrightarrow> fst (save_results req st) = Save_failed_500)
   \<and> (\<forall>k. k \<notin> uuid ` set reqs \<longrightarrow>
          get_results k (save_all reqs empty_store) = Not_found_404)"
proof -
  have "\<forall>k. k \<notin> uuid ` set reqs \<longrightarrow> testResults (save_all reqs empty_store) k = None"
    using dom_testResults_save_all [of reqs empty_store] by (auto simp: empty_store_def)
  then have "\<forall>k. k \<notin> uuid ` set reqs \<longrightarrow>
                get_results k (save_all reqs empty_store) = Not_found_404"
    by (simp add: get_results_def)
  moreover have "get_results (uuid req) (snd (save_results req st))
             = Found ((body req)\<lparr>result_id := Some (uuid req), timestamp := Some (now req),
                                 clientIp := remote req\<rparr>)"
    by (simp add: get_results_def testResults_save_results)
  moreover have "\<not> accepted req \<longrightarrow> fst (save_results req st) = Save_failed_500"
    by (auto simp: accepted_def save_results_def Let_def split: option.splits)
  ultimately show ?thesis using save_results_accepted [of req st] by blast
qed

theorem save_then_get_witness:
  "accepted (sample_request ''a'' 1 10)
   \<and> fst (save_results (sample_request ''a'' 1 10) empty_store) = Saved ''a''
   \<and> get_results ''a'' (snd (save_results (sample_request ''a'' 1 10) empty_store))
       = Found ((body (sample_request ''a'' 1 10))\<lparr>result_id := Some ''a'',
                  timestamp := Some ''2024-01-01T00:00:00.000Z'',
                  clientIp := Some ''127.0.0.1''\<rparr>)
   \<and> \<not> accepted sample_without_results
   \<and> fst (save_results sample_without_results (save_all sample_history empty_store))
       = Save_failed_500
   \<and> get_results ''b'' (save_all [sample_request ''a'' 1 10] empty_store) = Not_found_404"
proof -
  have a: "accepted (sample_request ''a'' 1 10)"
    by (simp add: accepted_def sample_request_def)
  have n: "\<not> accepted sample_without_results"
    by (simp add: accepted_def sample_without_results_def)
  have u: "uuid (sample_request ''a'' 1 10) = ''a''"
    "now (sample_request ''a'' 1 10) = ''2024-01-01T00:00:00.000Z''"
    "remote (sample_request ''a'' 1 10) = Some ''127.0.0.1''"
    by (simp_all add: sample_request_def)
  have k: "''b'' \<notin> uuid ` set [sample_request ''a'' 1 10]"
    by (simp add: sample_request_def)
  show ?thesis
    using a n k save_then_get [of "sample_request ''a'' 1 10" empty_store "[sample_request ''a'' 1 10]"]
      save_then_get [of sample_without_results "save_all sample_history empty_store" "[]"]
    unfolding u by blast
qed

subsection \<open>Download: the size parameter\<close>

lemma parseInt_samples:
  "parseInt (Some ''0'') = Some 0"
  "parseInt (Some ''-5'') = Some (- 5)"
  "parseInt (Some ''abc'') = None"
  "parseInt None = None"
  "parseInt (Some ''5000'') = Some 5000"
  "parseInt (Some ''131072'') = Some 131072"
  "parseInt (Some ''999999999'') = Some 999999999"
  by (simp_all add: parseInt_def parseInt_string_def is_space_def is_digit_def
      digit_value_def digits_value_def)

text \<open>
  The size \<open>0\<close> is not honoured (the default is served), and a negative size is
  neither replaced by the default nor clamped.
\<close>

theorem download_size_counterexample:
  "download_size (Some ''0'') = 10485760 \<and> download_size (Some ''-5'') = - 5"
  by (simp add: download_size_def or_default_def parseInt_samples)

text \<open>
  Claim C3, as amended. When \<open>parseInt\<close> of the size parameter is \<open>NaN\<close> or
  \<open>0\<close>, the default size of 10 MiB is used; when it is a positive integer \<open>n\<close>,
  the size is \<open>n\<close> clamped to the ceiling of 100 MiB; in every case the handler of
  server.js answers status 200 with that size as its content length.
\<close>

theorem download_size_cases:
  "((parseInt q = None \<or> parseInt q = Some 0) \<longrightarrow> download_size q = 10485760)
   \<and> (\<forall>n. parseInt q = Some n \<and> 0 < n \<longrightarrow> download_size q = min n 104857600)
   \<and> status_code (download_handler q env) = 200
   \<and> content_length (download_handler q env) = download_size q"
  by (auto simp: download_size_def or_default_def download_handler_def Let_def)

theorem download_size_cases_witness:
  "parseInt (Some ''abc'') = None \<and> download_size (Some ''abc'') = 10485760
   \<and> parseInt (Some ''999999999'') = Some 999999999
   \<and> download_size (Some ''999999999'') = 104857600
   \<and> parseInt (Some ''5000'') = Some 5000 \<and> download_size (Some ''5000'') = 5000"
  using download_size_cases [of "Some ''abc''"] download_size_cases [of "Some ''999999999''"]
    download_size_cases [of "Some ''5000''"]
  by (simp add: parseInt_samples)

subsection \<open>Download: the streamed body\<close>

lemma length_generateRandomData: "length (generateRandomData s n) = n"
  by (simp add: generateRandomData_def)

lemma sendChunk_backpressure:
  "map length (sendChunk 131072 backpressure_once True 0) = [65536, 65536, 65536]"
  by (simp add: sendChunk.simps [of _ _ _ 0] sendChunk.simps [of _ _ _ 65536] sendChunk.simps [of _ _ _ 131072]
      backpressure_once_def chunkSize_def Let_def length_generateRandomData)

lemma body_length_Cons: "body_length (c # cs) = int (length c) + body_length cs"
  by (simp add: body_length_def)

lemma body_length_Nil: "body_length [] = 0"
  by (simp add: body_length_def)

lemma sendChunk_exact:
  "active \<Longrightarrow> (\<forall>e \<in> set env. flushed e \<and> \<not> closed_after e) \<Longrightarrow>
     body_length (sendChunk sz env active bytesSent) = max 0 (sz - bytesSent)"
proof (induction sz env active bytesSent rule: sendChunk.induct)
  case (1 sz env active bytesSent)
  show ?case
  proof (cases "bytesSent \<ge> sz")
    case True
    then show ?thesis by (simp add: sendChunk.simps [of sz env active bytesSent] body_length_Nil)
  next
    case False
    define cur where "cur = min chunkSize (sz - bytesSent)"
    have cur: "0 < cur" "cur \<le> sz - bytesSent" using False by (simp_all add: cur_def chunkSize_def)
    show ?thesis
    proof (cases env)
      case Nil
      have ih: "body_length (sendChunk sz [] active (bytesSent + cur)) = max 0 (sz - (bytesSent + cur))"
        using "1.IH"(1) [OF _ refl cur_def Nil] False "1.prems" by simp
      have "sendChunk sz env active bytesSent
              = generateRandomData [] (nat cur) # sendChunk sz [] active (bytesSent + cur)"
        using False "1.prems"(1) Nil
        by (subst sendChunk.simps) (simp add: Let_def cur_def)
      then show ?thesis using ih cur
        by (simp add: body_length_Cons length_generateRandomData)
    next
      case (Cons e env')
      have fe: "flushed e" "\<not> closed_after e" and rest: "\<forall>e \<in> set env'. flushed e \<and> \<not> closed_after e"
        using "1.prems"(2) Cons by simp_all
      have "body_length (sendChunk sz env' active (bytesSent + cur)) = max 0 (sz - (bytesSent + cur))"
      proof (cases "bytesSent + cur < sz")
        case True
        from "1.IH"(2) [OF _ refl cur_def Cons fe(1) True] False "1.prems"(1) fe rest
        show ?thesis by simp
      next
        case False2: False
        from "1.IH"(3) [OF _ refl cur_def Cons fe(1) False2] False "1.prems"(1) rest
        show ?thesis by simp
      qed
      moreover have "sendChunk sz env active bytesSent
              = generateRandomData (fill e) (nat cur) # sendChunk sz env' active (bytesSent + cur)"
        using False "1.prems"(1) Cons fe
        by (subst sendChunk.simps) (simp add: Let_def cur_def)
      ultimately show ?thesis using cur
        by (simp add: body_length_Cons length_generateRandomData)
    qed
  qed
qed

lemma download_exact_without_backpressure:
  assumes "\<forall>e \<in> set env. flushed e \<and> \<not> closed_after e"
  shows "body_length (chunks (download_handler q env)) = max 0 (download_size q)"
  using sendChunk_exact [OF TrueI assms, of "download_size q" 0]
  by (simp add: download_handler_def Let_def)

text \<open>
  The worker template has the same defect: a write that returns \<open>false\<close> leaves
  \<open>offset\<close> where it was, and the same slice is written again.
\<close>

lemma worker_sendChunk_backpressure:
  assumes "length data = 524288"
  shows "map length (worker_sendChunk data 524288 [False] 0) = [262144, 262144, 262144]"
  using assms
  by (simp add: worker_sendChunk.simps [of _ _ _ 0] worker_sendChunk.simps [of _ _ _ 262144]
      worker_sendChunk.simps [of _ _ _ 524288] worker_chunkSize_def Let_def)

text \<open>
  Claim C4, at a failing input. A request for 131072 bytes (two chunks of 64 KiB)
  whose first \<open>write\<close> returns \<open>false\<close>: the handler announces 131072 bytes
  and hands 196608 bytes to the response, because the chunk that was queued is not
  counted in \<open>bytesSent\<close> and is produced again after \<open>drain\<close>.
\<close>

theorem download_backpressure:
  "content_length (download_handler (Some ''131072'') backpressure_once) = 131072
   \<and> body_length (chunks (download_handler (Some ''131072'') backpressure_once)) = 196608"
proof -
  have s: "download_size (Some ''131072'') = 131072"
    by (simp add: download_size_def or_default_def parseInt_samples)
  have "length (concat cs) = sum_list (map length cs)" for cs :: "string list"
    by (simp add: length_concat)
  then show ?thesis
    by (simp add: download_handler_def s body_length_def sendChunk_backpressure)
qed

subsection \<open>Payload cache\<close>

lemma getTestData_dom:
  "dom (testDataCache (case getTestData rnd sz w of Inl _ \<Rightarrow> w | Inr (_, w') \<Rightarrow> w'))
     = dom (testDataCache w) \<union> (if 0 \<le> sz then {sz} else {})"
  by (auto simp: getTestData_def Let_def split: option.splits)

lemma generate_all_step:
  "generate_all ((rnd, sz) # rest) w
     = generate_all rest (case getTestData rnd sz w of Inl _ \<Rightarrow> w | Inr (_, w') \<Rightarrow> w')"
  by (simp split: sum.splits prod.splits)

lemma generate_all_dom:
  "dom (testDataCache (generate_all reqs w))
     = dom (testDataCache w) \<union> {sz \<in> snd ` set reqs. 0 \<le> sz}"
proof (induction reqs arbitrary: w)
  case Nil
  then show ?case by simp
next
  case (Cons r reqs)
  obtain rnd sz where r: "r = (rnd, sz)" by (cases r)
  show ?case unfolding r generate_all_step Cons.IH getTestData_dom by auto
qed

lemma fresh_sizes_card:
  "card (dom (testDataCache (generate_all (fresh_sizes k) empty_worker))) = k"
proof -
  have "{sz \<in> snd ` set (fresh_sizes k). 0 \<le> sz} = int ` {0..<k}"
    by (auto simp: fresh_sizes_def image_iff)
  then have "dom (testDataCache (generate_all (fresh_sizes k) empty_worker)) = int ` {0..<k}"
    by (simp add: generate_all_dom empty_worker_def)
  then show ?thesis by (simp add: card_image)
qed

text \<open>
  No number bounds the entries of the cache over all sequences of generation requests.
\<close>

theorem cache_unbounded_counterexample:
  "\<not> (\<exists>B. \<forall>reqs. card (dom (testDataCache (generate_all reqs empty_worker))) \<le> B)"
proof
  assume "\<exists>B. \<forall>reqs. card (dom (testDataCache (generate_all reqs empty_worker))) \<le> B"
  then obtain B where "\<forall>reqs. card (dom (testDataCache (generate_all reqs empty_worker))) \<le> B" ..
  then have "card (dom (testDataCache (generate_all (fresh_sizes (Suc B)) empty_worker))) \<le> B" ..
  then show False by (simp add: fresh_sizes_card)
qed

lemma worker_download_dom:
  "dom (testDataCache (snd (worker_download rnd q env w)))
     \<subseteq> dom (testDataCache w) \<union> {1..104857600}"
proof -
  have "or_default (parseInt q) 10485760 \<noteq> 0"
    by (auto simp: or_default_def split: option.splits)
  then show ?thesis
    by (auto simp: worker_download_def Let_def getTestData_def min_def
        split: option.splits)
qed

text \<open>
  Claim C9, as amended. The cache never evicts and has no cap: after any sequence of
  generation requests it holds the sizes it held before and every non-negative size
  requested since. The only limit is the one of the caller: a download request adds
  at most one size, between 1 and the ceiling of 100 MiB.
\<close>

theorem cache_never_evicts:
  "dom (testDataCache (generate_all reqs w))
     = dom (testDataCache w) \<union> {sz \<in> snd ` set reqs. 0 \<le> sz}
   \<and> dom (testDataCache (snd (worker_download rnd q env w)))
       \<subseteq> dom (testDataCache w) \<union> {1..104857600}"
  using generate_all_dom worker_download_dom by blast

subsection \<open>Download phase: the running total\<close>

lemma progress_all_telescopes:
  "totalBytes (progress_all events s) - loadedBytes (progress_all events s)
     = totalBytes s - loadedBytes s"
  by (induction events arbitrary: s) (simp_all add: onprogress_def)

lemma totalBytes_is_last_loaded:
  "totalBytes (progress_all events download_start) = loadedBytes (progress_all events download_start)"
  using progress_all_telescopes [of events download_start] by (simp add: download_start_def)

text \<open>
  Claim C2, at a failing input. Two of the four sub-transfers report 1000 bytes each,
  one event after the other: the sub-transfers have received 2000 bytes and the
  running total of the orchestrator is 1000. The handlers subtract the shared field
  \<open>this.loadedBytes\<close>, which holds the \<open>loaded\<close> of the latest event of any
  sub-transfer, so that the total is always the \<open>loaded\<close> of the latest event
  (lemma \<open>totalBytes_is_last_loaded\<close>).
\<close>

theorem download_total_loses_bytes:
  "totalBytes (progress_all two_transfers download_start) = 1000
   \<and> received_total two_transfers = 2000"
  by (simp add: two_transfers_def download_start_def onprogress_def received_total_def
      received_def connections_def lessThan_nat_numeral lessThan_Suc)

subsection \<open>Stopping a run\<close>

lemma currentTest_handle: "currentTest (handle e p) = currentTest p"
  by (cases e) (auto simp: startTest_def stopTest_def resume_def saveResults_def Let_def
      split: option.splits awaited.splits)

lemma aborted_handle: "currentTest p = None \<Longrightarrow> aborted (handle e p) = aborted p"
  by (cases e) (auto simp: startTest_def stopTest_def resume_def saveResults_def Let_def
      split: option.splits awaited.splits)

lemma never_aborts:
  "currentTest p = None \<Longrightarrow> aborted (handle_all es p) = aborted p"
  by (induction es arbitrary: p) (simp_all add: currentTest_handle aborted_handle)

lemma stopped_state:
  "handle_all stopped_in_download page_start =
     \<lparr>isTesting = False, currentTest = None, aborted = [], history = [], posted = [],
      testPhase = ''Test stopped'',
      suspended = [\<lparr>testId = ''TEST_1'', awaits = Await_download\<rparr>]\<rparr>"
  by (simp add: stopped_in_download_def page_start_def startTest_def stopTest_def resume_def)

text \<open>
  Claim C1, at a failing input. The user starts a run, the ping phase ends, and the
  user clicks again during the download phase. The page then shows the stopped state
  (\<open>isTesting\<close> is false, the progress line reads \<open>Test stopped\<close>), but no
  request has been aborted and the invocation of \<open>startTest\<close> is still suspended
  on the download phase. When the download and upload phases end, the invocation
  stores the result of the stopped run in the history and posts it to the server.
\<close>

theorem stopped_run_is_stored:
  "isTesting (handle_all stopped_in_download page_start) = False
   \<and> testPhase (handle_all stopped_in_download page_start) = ''Test stopped''
   \<and> suspended (handle_all stopped_in_download page_start)
       = [\<lparr>testId = ''TEST_1'', awaits = Await_download\<rparr>]
   \<and> aborted (handle_all stopped_in_download page_start) = []
   \<and> history (handle_all stopped_run page_start) = [''TEST_1'']
   \<and> posted (handle_all stopped_run page_start) = [''TEST_1'']"
proof -
  have a: "handle_all stopped_run page_start
             = handle_all [Settled 0 True, Settled 0 True] (handle_all stopped_in_download page_start)"
    by (simp add: stopped_run_def stopped_in_download_def)
  show ?thesis unfolding a stopped_state
    by (simp add: resume_def saveResults_def Let_def)
qed

end
